theory Spec2Isabelle
  imports Complex_Main
begin

section \<open>Errors, log records and the external application\<close>

text \<open>
  The package is a wrapper around the COM automation interface of a drawing
  application. A failing call into the application raises \<open>pythoncom.com_error\<close>,
  which carries an HRESULT and a text. The Python exceptions the wrapper raises itself
  are \<open>KeyError\<close>, \<open>ValueError\<close> and \<open>AttributeError\<close>; the conversion \<open>float(n)\<close> of
  an integer too large for a double raises \<open>OverflowError\<close>.
\<close>

datatype com_exc = ComExc int string

datatype exc_arg = IntArg int | StrArg string

datatype error =
    com_error com_exc
  | KeyError string
  | ValueError exc_arg
  | AttributeError string
  | OverflowError string

type_synonym 'a ret = "error + 'a"

text \<open>
  A call \<open>logger.error(fmt, args)\<close> is kept as the format string with its arguments,
  in the order of the calls.
\<close>

datatype log_arg = LInt int | LStr string | LNone | LCom com_exc

datatype log_entry =
    LogError string "log_arg list"
  | LogWarning string "log_arg list"

text \<open>
  The calls into the application that change something there are recorded in a trace, so
  that "the file is opened once" and "the call is not repeated" can be stated.
\<close>

datatype com_call =
    Call_OpenEx string int
  | Call_Documents_Add string
  | Call_Documents_Open string
  | Call_Pages_Add
  | Call_Save
  | Call_SaveAs string
  | Call_Print
  | Call_ExportAsFixedFormat string
  | Call_Close
  | Call_Export string
  | Call_Drop

text \<open>
  What the wrapper sees of the application itself: the log of the Python process, the
  trace, and the two application settings the wrapper writes.
\<close>

record world =
  logged :: "log_entry list"
  com_trace :: "com_call list"
  AlertResponse :: int
  RasterExportUseTransparencyColor :: int

definition log_error :: "string \<Rightarrow> log_arg list \<Rightarrow> world \<Rightarrow> world" where
  "log_error fmt args w = w\<lparr>logged := logged w @ [LogError fmt args]\<rparr>"

definition log_warning :: "string \<Rightarrow> log_arg list \<Rightarrow> world \<Rightarrow> world" where
  "log_warning fmt args w = w\<lparr>logged := logged w @ [LogWarning fmt args]\<rparr>"

definition com_invoke :: "com_call \<Rightarrow> world \<Rightarrow> world" where
  "com_invoke c w = w\<lparr>com_trace := com_trace w @ [c]\<rparr>"

section \<open>The path functions of the standard library\<close>

text \<open>
  \<open>add_stencil\<close> derives the key of a library with \<open>os.path.splitext\<close> and
  \<open>os.path.basename\<close>. The package runs on Windows only (it imports \<open>win32com\<close>), so
  \<open>os.path\<close> is \<open>ntpath\<close>; the definitions follow CPython 2.7.
\<close>

primrec rfind_aux :: "char \<Rightarrow> string \<Rightarrow> int \<Rightarrow> int \<Rightarrow> int" where
  "rfind_aux c [] i acc = acc"
| "rfind_aux c (x # xs) i acc = rfind_aux c xs (i + 1) (if x = c then i else acc)"

definition rfind :: "char \<Rightarrow> string \<Rightarrow> int" where
  \<comment> \<open>\<open>p.rfind(c)\<close>: the highest index of \<open>c\<close>, or \<open>-1\<close>\<close>
  "rfind c p = rfind_aux c p 0 (- 1)"

primrec find_from_aux :: "char \<Rightarrow> string \<Rightarrow> int \<Rightarrow> int \<Rightarrow> int" where
  "find_from_aux c [] i start = - 1"
| "find_from_aux c (x # xs) i start =
     (if start \<le> i \<and> x = c then i else find_from_aux c xs (i + 1) start)"

definition find_from :: "char \<Rightarrow> string \<Rightarrow> int \<Rightarrow> int" where
  \<comment> \<open>\<open>p.find(c, start)\<close> for \<open>start \<ge> 0\<close>: the lowest index from \<open>start\<close> on, or \<open>-1\<close>\<close>
  "find_from c p start = find_from_aux c p 0 start"

definition sep :: char where "sep = CHR 0x5C"
definition altsep :: char where "altsep = CHR ''/''"
definition extsep :: char where "extsep = CHR ''.''"

definition is_sep :: "char \<Rightarrow> bool" where
  "is_sep c \<longleftrightarrow> c = altsep \<or> c = sep"

definition splitext :: "string \<Rightarrow> string \<times> string" where
  \<comment> \<open>\<open>genericpath._splitext(p, sep, altsep, extsep)\<close>\<close>
  "splitext p =
     (let sepIndex = max (rfind sep p) (rfind altsep p);
          dotIndex = rfind extsep p
      in if dotIndex > sepIndex \<and>
            list_ex (\<lambda>ch. ch \<noteq> extsep)
              (take (nat (dotIndex - (sepIndex + 1))) (drop (nat (sepIndex + 1)) p))
         then (take (nat dotIndex) p, drop (nat dotIndex) p)
         else (p, []))"

definition splitdrive :: "string \<Rightarrow> string \<times> string" where
  "splitdrive p =
     (if length p > 1 then
        (let normp = map (\<lambda>ch. if ch = altsep then sep else ch) p in
         if take 2 normp = [sep, sep] \<and> take 1 (drop 2 normp) \<noteq> [sep] then
           (let index = find_from sep normp 2 in
            if index = - 1 then ([], p)
            else
              (let index2 = find_from sep normp (index + 1) in
               if index2 = index + 1 then ([], p)
               else
                 (let index2' = (if index2 = - 1 then int (length p) else index2)
                  in (take (nat index2') p, drop (nat index2') p))))
         else if normp ! 1 = CHR '':'' then (take 2 p, drop 2 p)
         else ([], p))
      else ([], p))"

definition basename :: "string \<Rightarrow> string" where
  \<comment> \<open>\<open>ntpath.split(p)[1]\<close>: what follows the last separator after the drive\<close>
  "basename p = rev (takeWhile (\<lambda>ch. \<not> is_sep ch) (rev (snd (splitdrive p))))"







section \<open>Stencils\<close>

text \<open>
  A master shape of an opened stencil document is known to the wrapper by its universal
  name; \<open>master_ID\<close> stands for the identity of the COM object. An opened stencil
  document is the collection of its masters, in the order the application iterates them.
\<close>

record master =
  master_NameU :: string
  master_ID :: nat

record stencil_doc =
  Masters :: "master list"

definition visOpenDocked :: int where
  "visOpenDocked = 4"

definition visio_exception :: "string \<Rightarrow> com_exc" where
  \<comment> \<open>how \<open>win32com\<close> reports an exception of the application: \<open>DISP_E_EXCEPTION\<close>\<close>
  "visio_exception msg = ComExc (- 2147352567) msg"

definition Masters_ItemU :: "stencil_doc \<Rightarrow> string \<Rightarrow> com_exc + master" where
  \<comment> \<open>\<open>doc.Masters.ItemU(name)\<close>: the master with that universal name\<close>
  "Masters_ItemU doc name =
     (case find (\<lambda>m. master_NameU m = name) (Masters doc) of
        None \<Rightarrow> Inl (visio_exception ''Object name not found.'')
      | Some m \<Rightarrow> Inr m)"

text \<open>The object \<open>VisStencils\<close>: the two private dictionaries.\<close>

record VisStencils =
  stencils :: "string \<rightharpoonup> stencil_doc"
  shapes :: "string \<rightharpoonup> string list"

definition VisStencils_empty :: VisStencils where
  "VisStencils_empty = \<lparr>stencils = Map.empty, shapes = Map.empty\<rparr>"

definition get :: "VisStencils \<Rightarrow> string \<Rightarrow> int \<Rightarrow> world \<Rightarrow> master ret \<times> world" where
  "get self shape index w =
     (case shapes self shape of
        Some keys \<Rightarrow>
          if int (length keys) > index \<and> index \<ge> 0 then
            (case stencils self (keys ! nat index) of
               None \<Rightarrow> (Inl (KeyError (keys ! nat index)), w)
             | Some doc \<Rightarrow>
                 (case Masters_ItemU doc shape of
                    Inl reason \<Rightarrow> (Inl (com_error reason), w)
                  | Inr m \<Rightarrow> (Inr m, w)))
          else (Inl (ValueError (IntArg index)), log_error ''Bad shape index: %s'' [LInt index] w)
      | None \<Rightarrow> (Inl (KeyError shape), log_error ''Non existing shape: %s'' [LStr shape] w))"

definition getitem :: "VisStencils \<Rightarrow> string \<Rightarrow> world \<Rightarrow> master ret \<times> world" where
  "getitem self shape w = get self shape 0 w"

definition stencil_key :: "string \<Rightarrow> string" where
  "stencil_key filename = basename (fst (splitext filename))"

text \<open>The loop of \<open>add_stencil\<close> over the masters of the opened library.\<close>

primrec register_masters ::
  "string \<Rightarrow> master list \<Rightarrow> (string \<rightharpoonup> string list) \<Rightarrow> (string \<rightharpoonup> string list)" where
  "register_masters key [] sh = sh"
| "register_masters key (m # ms) sh =
     register_masters key ms
       (case sh (master_NameU m) of
          None \<Rightarrow> sh(master_NameU m \<mapsto> [key])
        | Some keys \<Rightarrow> sh(master_NameU m \<mapsto> key # keys))"

text \<open>
  \<open>OpenEx\<close> is what \<open>vCOM.Documents.OpenEx(filename, flags)\<close> answers. The assertion
  on the type of \<open>filename\<close> holds by typing.
\<close>

definition add_stencil ::
  "(string \<Rightarrow> int \<Rightarrow> com_exc + stencil_doc) \<Rightarrow> string \<Rightarrow> VisStencils \<Rightarrow> world
     \<Rightarrow> unit ret \<times> VisStencils \<times> world" where
  "add_stencil OpenEx filename self w =
     (let key = stencil_key filename in
      if stencils self key = None then
        (case OpenEx filename visOpenDocked of
           Inl reason \<Rightarrow>
             (Inl (com_error reason), self,
              log_error ''COM Exception: %s'' [LCom reason]
                (log_error ''Loading of stencil file failed for: %s'' [LStr filename]
                  (com_invoke (Call_OpenEx filename visOpenDocked) w)))
         | Inr doc \<Rightarrow>
             (Inr (),
              self\<lparr>stencils := (stencils self)(key \<mapsto> doc),
                   shapes := register_masters key (Masters doc) (shapes self)\<rparr>,
              com_invoke (Call_OpenEx filename visOpenDocked) w))
      else (Inr (), self, w))"

text \<open>
  A history of \<open>add_stencil\<close> calls on one object; a call that raises leaves the object
  as it was, and the caller goes on.
\<close>

primrec add_stencils ::
  "(string \<Rightarrow> int \<Rightarrow> com_exc + stencil_doc) \<Rightarrow> string list \<Rightarrow> VisStencils \<Rightarrow> world
     \<Rightarrow> VisStencils \<times> world" where
  "add_stencils OpenEx [] self w = (self, w)"
| "add_stencils OpenEx (f # fs) self w =
     (case add_stencil OpenEx f self w of (r, self', w') \<Rightarrow> add_stencils OpenEx fs self' w')"


text \<open>
  \<open>export\<close> of a master shape; \<open>Export\<close> is what
  \<open>master.Shapes.Item(1).Export(filename)\<close> answers (\<open>None\<close>: no exception).
\<close>

definition VisStencils_export ::
  "(master \<Rightarrow> string \<Rightarrow> com_exc option) \<Rightarrow> VisStencils \<Rightarrow> string \<Rightarrow> string \<Rightarrow> int \<Rightarrow> world
     \<Rightarrow> unit ret \<times> world" where
  "VisStencils_export Export self filename shape index w =
     (let w1 = w\<lparr>RasterExportUseTransparencyColor := - 1\<rparr> in
      case get self shape index w1 of
        (Inl e, w2) \<Rightarrow> (Inl e, w2)
      | (Inr m, w2) \<Rightarrow>
          (case Export m filename of
             Some reason \<Rightarrow>
               (Inl (com_error reason),
                log_error ''Export failed: %s'' [LCom reason] (com_invoke (Call_Export filename) w2))
           | None \<Rightarrow> (Inr (), com_invoke (Call_Export filename) w2)))"

section \<open>Documents\<close>

text \<open>
  The document of the application, as far as the wrapper reads and writes it: the
  collection of its pages, in position order. A COM page object refers to the page at a
  position of the collection; \<open>page.Index\<close> is that position, counted from 1.
\<close>

record com_page =
  page_NameU :: string
  AutoSize :: bool

record com_document =
  Pages :: "com_page list"

record VisDocument =
  self_filename :: string
  self_document :: com_document

type_synonym page_ref = nat

definition page_Index :: "page_ref \<Rightarrow> int" where
  "page_Index r = int r + 1"

datatype page_key = PageIndex int | PageName string

primrec position_of :: "string \<Rightarrow> com_page list \<Rightarrow> nat option" where
  "position_of n [] = None"
| "position_of n (p # ps) =
     (if page_NameU p = n then Some 0
      else (case position_of n ps of None \<Rightarrow> None | Some k \<Rightarrow> Some (Suc k)))"

definition Pages_ItemU :: "com_page list \<Rightarrow> page_key \<Rightarrow> com_exc + page_ref" where
  \<comment> \<open>\<open>Pages.ItemU(key)\<close>: by 1-based position, or by universal name\<close>
  "Pages_ItemU pages key =
     (case key of
        PageIndex i \<Rightarrow>
          if 1 \<le> i \<and> i \<le> int (length pages) then Inr (nat (i - 1))
          else Inl (visio_exception ''Invalid page index.'')
      | PageName n \<Rightarrow>
          (case position_of n pages of
             None \<Rightarrow> Inl (visio_exception ''Object name not found.'')
           | Some r \<Rightarrow> Inr r))"

definition Pages_Add :: "string \<Rightarrow> com_page list \<Rightarrow> com_page list \<times> page_ref" where
  \<comment> \<open>\<open>Pages.Add()\<close> when it succeeds: a new last page, under the name the application picks\<close>
  "Pages_Add default_name pages =
     (pages @ [\<lparr>page_NameU = default_name, AutoSize = False\<rparr>], length pages)"

definition set_page_AutoSize :: "page_ref \<Rightarrow> bool \<Rightarrow> com_page list \<Rightarrow> com_page list" where
  "set_page_AutoSize r v pages = pages[r := (pages ! r)\<lparr>AutoSize := v\<rparr>]"

definition set_page_NameU :: "page_ref \<Rightarrow> string \<Rightarrow> com_page list \<Rightarrow> com_exc + com_page list" where
  \<comment> \<open>the application keeps the universal names of the pages of a document unique\<close>
  "set_page_NameU r name pages =
     (if list_ex (\<lambda>j. j \<noteq> r \<and> page_NameU (pages ! j) = name) [0..<length pages]
      then Inl (visio_exception ''A page with this name already exists.'')
      else Inr (pages[r := (pages ! r)\<lparr>page_NameU := name\<rparr>]))"

definition VisDocument_init ::
  "(string \<Rightarrow> com_exc + com_document) \<Rightarrow> (string \<Rightarrow> com_exc + com_document) \<Rightarrow> string \<Rightarrow> bool
     \<Rightarrow> world \<Rightarrow> VisDocument ret \<times> world" where
  "VisDocument_init Documents_Add Documents_Open filename rw w =
     (let w1 = com_invoke (if \<not> rw then Call_Documents_Add filename
                           else Call_Documents_Open filename) w in
      case (if \<not> rw then Documents_Add filename else Documents_Open filename) of
        Inl reason \<Rightarrow>
          (Inl (com_error reason),
           log_error ''COM Exception: %s'' [LCom reason]
             (log_error ''Loading of document failed for: %s'' [LStr filename] w1))
      | Inr d \<Rightarrow> (Inr \<lparr>self_filename = filename, self_document = d\<rparr>, w1))"

definition len :: "VisDocument \<Rightarrow> int" where
  "len self = int (length (Pages (self_document self)))"

text \<open>
  \<open>add\<close>: \<open>PagesAdd\<close> is what \<open>self._pages.Add()\<close> answers, an exception or the name
  the application gives the new page. The two property writes are outside the \<open>try\<close>.
\<close>

definition add ::
  "(com_document \<Rightarrow> com_exc + string) \<Rightarrow> string option \<Rightarrow> VisDocument \<Rightarrow> world
     \<Rightarrow> int ret \<times> VisDocument \<times> world" where
  "add PagesAdd name self w =
     (let w1 = com_invoke Call_Pages_Add w in
      case PagesAdd (self_document self) of
        Inl reason \<Rightarrow>
          (Inl (com_error reason), self,
           log_error ''COM Exception: %s'' [LCom reason]
             (log_error ''Page adding failed for page: %s''
                [case name of None \<Rightarrow> LNone | Some n \<Rightarrow> LStr n] w1))
      | Inr default_name \<Rightarrow>
          (case Pages_Add default_name (Pages (self_document self)) of
             (pages1, new_page) \<Rightarrow>
               (let pages2 = set_page_AutoSize new_page True pages1 in
                case name of
                  None \<Rightarrow>
                    (Inr (page_Index new_page),
                     self\<lparr>self_document := (self_document self)\<lparr>Pages := pages2\<rparr>\<rparr>, w1)
                | Some n \<Rightarrow>
                    (case set_page_NameU new_page n pages2 of
                       Inl reason \<Rightarrow>
                         (Inl (com_error reason),
                          self\<lparr>self_document := (self_document self)\<lparr>Pages := pages2\<rparr>\<rparr>, w1)
                     | Inr pages3 \<Rightarrow>
                         (Inr (page_Index new_page),
                          self\<lparr>self_document := (self_document self)\<lparr>Pages := pages3\<rparr>\<rparr>,
                          w1)))))"

definition iter :: "VisDocument \<Rightarrow> string list" where
  "iter self = map page_NameU (Pages (self_document self))"

definition contains :: "VisDocument \<Rightarrow> string \<Rightarrow> bool" where
  \<comment> \<open>\<open>name in doc\<close>: there is no \<open>__contains__\<close>, so Python searches the iteration\<close>
  "contains self name = list_ex (\<lambda>n. n = name) (iter self)"

definition VisDocument_getitem :: "VisDocument \<Rightarrow> page_key \<Rightarrow> world \<Rightarrow> page_ref ret \<times> world" where
  "VisDocument_getitem self page w =
     (case Pages_ItemU (Pages (self_document self)) page of
        Inl reason \<Rightarrow>
          (Inl (com_error reason),
           log_error ''COM Exception: %s'' [LCom reason]
             (log_error (''Getting page '' @ [CHR 0x27] @ ''%s'' @ [CHR 0x27] @ '' failed'')
                [case page of PageIndex i \<Rightarrow> LInt i | PageName n \<Rightarrow> LStr n] w))
      | Inr p \<Rightarrow> (Inr p, w))"

definition save :: "(com_document \<Rightarrow> com_exc option) \<Rightarrow> VisDocument \<Rightarrow> world \<Rightarrow> unit ret \<times> world" where
  "save Save self w =
     (case Save (self_document self) of
        Some reason \<Rightarrow>
          (Inl (com_error reason),
           log_error ''COM Exception: %s'' [LCom reason]
             (log_error ''Failed to save document to file'' [] (com_invoke Call_Save w)))
      | None \<Rightarrow> (Inr (), com_invoke Call_Save w))"

definition saveAs ::
  "(com_document \<Rightarrow> string \<Rightarrow> com_exc option) \<Rightarrow> VisDocument \<Rightarrow> string \<Rightarrow> world
     \<Rightarrow> unit ret \<times> world" where
  "saveAs SaveAs self filename w =
     (case SaveAs (self_document self) filename of
        Some reason \<Rightarrow>
          (Inl (com_error reason),
           log_error ''COM Exception: %s'' [LCom reason]
             (log_error ''Failed to save document to file: %s'' [LStr filename]
               (com_invoke (Call_SaveAs filename) w)))
      | None \<Rightarrow> (Inr (), com_invoke (Call_SaveAs filename) w))"

definition printDefault ::
  "(com_document \<Rightarrow> com_exc option) \<Rightarrow> VisDocument \<Rightarrow> world \<Rightarrow> unit ret \<times> world" where
  "printDefault Print self w =
     (case Print (self_document self) of
        Some reason \<Rightarrow>
          (Inl (com_error reason),
           log_error ''COM Exception: %s'' [LCom reason]
             (log_error ''Failed to print document'' [] (com_invoke Call_Print w)))
      | None \<Rightarrow> (Inr (), com_invoke Call_Print w))"

definition VisDocument_export ::
  "(com_document \<Rightarrow> int \<Rightarrow> string \<Rightarrow> int \<Rightarrow> int \<Rightarrow> com_exc option) \<Rightarrow> VisDocument \<Rightarrow> string
     \<Rightarrow> world \<Rightarrow> unit ret \<times> world" where
  "VisDocument_export ExportAsFixedFormat self filename w =
     (case ExportAsFixedFormat (self_document self) 1 filename 1 0 of
        Some reason \<Rightarrow>
          (Inl (com_error reason),
           log_error ''COM Exception: %s'' [LCom reason]
             (log_error ''Failed to print document'' []
               (com_invoke (Call_ExportAsFixedFormat filename) w)))
      | None \<Rightarrow> (Inr (), com_invoke (Call_ExportAsFixedFormat filename) w))"

text \<open>
  \<open>close\<close>: \<open>Close\<close> is what \<open>self._document.Close()\<close> answers under the alert
  response in force. The last statement of the source, which writes the saved setting
  back, follows the \<open>try\<close> statement.
\<close>

definition close ::
  "(com_document \<Rightarrow> int \<Rightarrow> com_exc option) \<Rightarrow> VisDocument \<Rightarrow> bool \<Rightarrow> world \<Rightarrow> unit ret \<times> world" where
  "close Close self nosave w =
     (let saved = AlertResponse w;
          w1 = (if nosave then w\<lparr>AlertResponse := 7\<rparr> else w);
          w2 = com_invoke Call_Close w1
      in case Close (self_document self) (AlertResponse w1) of
           Some reason \<Rightarrow>
             (Inl (com_error reason),
              log_error ''COM Exception: %s'' [LCom reason]
                (log_error ''Failed to print document'' [] w2))
         | None \<Rightarrow> (Inr (), w2\<lparr>AlertResponse := saved\<rparr>))"


section \<open>Placed shapes\<close>

text \<open>
  A value handed to or read from a property of the application is a float or a string.
  The shape of the application, as far as the wrapper reads and writes it: the cells of
  its sheet with the formula last assigned to each, its text, the flag \<open>OneD\<close>, its
  universal name and its upright bounding box.
\<close>

datatype variant = VFloat real | VStr string

record com_shape =
  cells :: "string \<rightharpoonup> variant"
  shape_Text :: string
  OneD :: int
  shape_NameU :: string
  bbox :: "real \<times> real \<times> real \<times> real"

text \<open>
  What a Python expression of the wrapper evaluates to. \<open>PyCOMCell n\<close> is the COM object
  of the cell named \<open>n\<close> of the shape, \<open>PyFormula v\<close> the formula text of a cell to which
  \<open>v\<close> was assigned.
\<close>

datatype pyval =
    PyNone
  | PyFloat real
  | PyUnicode string
  | PyBool bool
  | PyFormula variant
  | PyCOMCell string
  | PyTuple "pyval list"

text \<open>
  The wrapper object: \<open>self._shape\<close> is the COM shape, or \<open>None\<close> after \<open>delete\<close>. An
  object of the subclass \<open>VisConnector\<close> has the attribute \<open>self._type\<close> as well;
  \<open>self_type = None\<close> is an object of the base class.
\<close>

record VisShape =
  self_shape :: "com_shape option"
  self_type :: "string option"

text \<open>
  The members of the application's shape interface that the wrapper names. Looking up an
  attribute on \<open>self._shape\<close> raises \<open>AttributeError\<close> when the reference is \<open>None\<close>,
  and when the COM shape has no member of that name.
\<close>

definition IVShape_members :: "string list" where
  "IVShape_members =
     [''CellsU'', ''Cells'', ''CellExistsU'', ''BoundingBox'', ''SetCenter'', ''Text'', ''OneD'',
      ''DeleteEx'', ''NameU'', ''FromConnects'', ''AutoConnect'', ''ContainingPage'']"

definition getattr_shape :: "'a VisShape_scheme \<Rightarrow> string \<Rightarrow> error + com_shape" where
  "getattr_shape self attr =
     (case self_shape self of
        None \<Rightarrow> Inl (AttributeError attr)
      | Some sh \<Rightarrow> if list_ex (\<lambda>m. m = attr) IVShape_members then Inr sh
                   else Inl (AttributeError attr))"

definition CellsU :: "com_shape \<Rightarrow> string \<Rightarrow> com_exc + string" where
  \<comment> \<open>\<open>shape.CellsU(name)\<close>: the cell object, named here by its cell\<close>
  "CellsU sh name =
     (if cells sh name \<noteq> None then Inr name else Inl (visio_exception ''Unexpected end of file.''))"

definition get_FormulaU :: "com_shape \<Rightarrow> string \<Rightarrow> com_exc + variant" where
  \<comment> \<open>\<open>shape.CellsU(name).FormulaU\<close>\<close>
  "get_FormulaU sh name =
     (case cells sh name of
        None \<Rightarrow> Inl (visio_exception ''Unexpected end of file.'')
      | Some v \<Rightarrow> Inr v)"

definition set_FormulaU :: "com_shape \<Rightarrow> string \<Rightarrow> variant \<Rightarrow> com_exc + com_shape" where
  \<comment> \<open>\<open>shape.CellsU(name).FormulaU = v\<close>\<close>
  "set_FormulaU sh name v =
     (if cells sh name \<noteq> None then Inr (sh\<lparr>cells := (cells sh)(name \<mapsto> v)\<rparr>)
      else Inl (visio_exception ''Unexpected end of file.''))"

text \<open>
  The numbers a caller passes for a position or size: an integer or a float. \<open>float(n)\<close>
  leaves a float as it is; an integer is rounded to the nearest double (53 significant
  bits, ties to even), and \<open>OverflowError\<close> is raised when the rounded value does not fit
  a double.
\<close>

datatype pynum = Int_num int | Float_num real

fun bit_length :: "nat \<Rightarrow> nat" where
  "bit_length n = (if n = 0 then 0 else Suc (bit_length (n div 2)))"

definition float_of_int :: "int \<Rightarrow> error + real" where
  "float_of_int i =
     (let a = nat \<bar>i\<bar>; n = bit_length a in
      if n \<le> 53 then Inr (of_int i)
      else
        (let shift = n - 53;
             q = a div 2 ^ shift;
             r = a mod 2 ^ shift;
             half = 2 ^ (shift - 1);
             q' = (if r > half \<or> (r = half \<and> odd q) then q + 1 else q);
             m = q' * 2 ^ shift
         in if m \<ge> 2 ^ 1024 then Inl (OverflowError ''long int too large to convert to float'')
            else Inr (if i < 0 then - of_nat m else of_nat m)))"

fun py_float :: "pynum \<Rightarrow> error + real" where
  "py_float (Int_num i) = float_of_int i"
| "py_float (Float_num d) = Inr d"

definition VisShape_init ::
  "('p \<Rightarrow> master \<Rightarrow> real \<Rightarrow> real \<Rightarrow> com_exc + com_shape) \<Rightarrow> 'p \<Rightarrow> master \<Rightarrow> 'p option
     \<Rightarrow> pynum \<Rightarrow> pynum \<Rightarrow> world \<Rightarrow> VisShape ret \<times> world" where
  \<comment> \<open>\<open>Drop\<close> is what \<open>page.Drop(stencil, x, y)\<close> answers; \<open>ActiveWindow_Page\<close> is the
      page of the active window\<close>
  "VisShape_init Drop ActiveWindow_Page stencil page x y w =
     (let page' = (case page of None \<Rightarrow> ActiveWindow_Page | Some p \<Rightarrow> p) in
      case py_float x of
        Inl e \<Rightarrow> (Inl e, w)
      | Inr fx \<Rightarrow>
          (case py_float y of
             Inl e \<Rightarrow> (Inl e, w)
           | Inr fy \<Rightarrow>
               (case Drop page' stencil fx fy of
                  Inl reason \<Rightarrow> (Inl (com_error reason), com_invoke Call_Drop w)
                | Inr sh \<Rightarrow>
                    (Inr \<lparr>self_shape = Some sh, self_type = None\<rparr>, com_invoke Call_Drop w))))"

definition cell_get :: "string \<Rightarrow> string \<Rightarrow> 'a VisShape_scheme \<Rightarrow> pyval ret" where
  \<comment> \<open>the getters \<open>x\<close>, \<open>y\<close>, \<open>w\<close>, \<open>h\<close>: \<open>return self._shape.CellsU(name)\<close>\<close>
  "cell_get attr name self =
     (case getattr_shape self attr of
        Inl e \<Rightarrow> Inl e
      | Inr sh \<Rightarrow>
          (case CellsU sh name of
             Inl reason \<Rightarrow> Inl (com_error reason)
           | Inr c \<Rightarrow> Inr (PyCOMCell c)))"

definition formula_set ::
  "string \<Rightarrow> string \<Rightarrow> variant \<Rightarrow> 'a VisShape_scheme \<Rightarrow> pyval ret \<times> 'a VisShape_scheme" where
  \<comment> \<open>\<open>self._shape.CellsU(name).FormulaU = v\<close> (or \<open>Cells\<close> for \<open>CellsU\<close>)\<close>
  "formula_set attr name v self =
     (case getattr_shape self attr of
        Inl e \<Rightarrow> (Inl e, self)
      | Inr sh \<Rightarrow>
          (case set_FormulaU sh name v of
             Inl reason \<Rightarrow> (Inl (com_error reason), self)
           | Inr sh' \<Rightarrow> (Inr PyNone, self\<lparr>self_shape := Some sh'\<rparr>)))"

definition formula_get :: "string \<Rightarrow> string \<Rightarrow> 'a VisShape_scheme \<Rightarrow> pyval ret" where
  \<comment> \<open>\<open>return self._shape.CellsU(name).FormulaU\<close>\<close>
  "formula_get attr name self =
     (case getattr_shape self attr of
        Inl e \<Rightarrow> Inl e
      | Inr sh \<Rightarrow>
          (case get_FormulaU sh name of
             Inl reason \<Rightarrow> Inl (com_error reason)
           | Inr v \<Rightarrow> Inr (PyFormula v)))"

definition x_get :: "'a VisShape_scheme \<Rightarrow> pyval ret" where
  "x_get self = cell_get ''CellsU'' ''PinX'' self"

definition float_set ::
  "string \<Rightarrow> pynum \<Rightarrow> 'a VisShape_scheme \<Rightarrow> pyval ret \<times> 'a VisShape_scheme" where
  \<comment> \<open>\<open>self._shape.CellsU(name).FormulaU = float(val)\<close>: the right-hand side is evaluated
      first\<close>
  "float_set name val self =
     (case py_float val of
        Inl e \<Rightarrow> (Inl e, self)
      | Inr f \<Rightarrow> formula_set ''CellsU'' name (VFloat f) self)"

definition x_set :: "pynum \<Rightarrow> 'a VisShape_scheme \<Rightarrow> pyval ret \<times> 'a VisShape_scheme" where
  "x_set xval self = float_set ''PinX'' xval self"

definition y_get :: "'a VisShape_scheme \<Rightarrow> pyval ret" where
  "y_get self = cell_get ''CellsU'' ''PinY'' self"

definition y_set :: "pynum \<Rightarrow> 'a VisShape_scheme \<Rightarrow> pyval ret \<times> 'a VisShape_scheme" where
  "y_set yval self = float_set ''PinY'' yval self"

definition w_get :: "'a VisShape_scheme \<Rightarrow> pyval ret" where
  "w_get self = cell_get ''CellsU'' ''Width'' self"

definition w_set :: "pynum \<Rightarrow> 'a VisShape_scheme \<Rightarrow> pyval ret \<times> 'a VisShape_scheme" where
  "w_set wval self = float_set ''Width'' wval self"

definition h_get :: "'a VisShape_scheme \<Rightarrow> pyval ret" where
  "h_get self = cell_get ''CellsU'' ''Height'' self"

definition h_set :: "pynum \<Rightarrow> 'a VisShape_scheme \<Rightarrow> pyval ret \<times> 'a VisShape_scheme" where
  "h_set hval self = float_set ''Height'' hval self"

definition coords :: "'a VisShape_scheme \<Rightarrow> pyval ret" where
  "coords self =
     (case getattr_shape self ''BoundingBox'' of
        Inl e \<Rightarrow> Inl e
      | Inr sh \<Rightarrow>
          (case bbox sh of
             (x0, y0, x1, y1) \<Rightarrow> Inr (PyTuple [PyFloat x0, PyFloat y0, PyFloat x1, PyFloat y1])))"

definition moveto :: "pynum \<Rightarrow> pynum \<Rightarrow> 'a VisShape_scheme \<Rightarrow> pyval ret \<times> 'a VisShape_scheme" where
  \<comment> \<open>\<open>self._shape.SetCenter(float(xnew), float(ynew))\<close>: the method is looked up, then the
      arguments are evaluated; \<open>SetCenter\<close> moves the shape so that its pin is at the
      coordinates\<close>
  "moveto xnew ynew self =
     (case getattr_shape self ''SetCenter'' of
        Inl e \<Rightarrow> (Inl e, self)
      | Inr sh \<Rightarrow>
          (case py_float xnew of
             Inl e \<Rightarrow> (Inl e, self)
           | Inr fx \<Rightarrow>
               (case py_float ynew of
                  Inl e \<Rightarrow> (Inl e, self)
                | Inr fy \<Rightarrow>
                    (case set_FormulaU sh ''PinX'' (VFloat fx) of
                       Inl reason \<Rightarrow> (Inl (com_error reason), self)
                     | Inr sh1 \<Rightarrow>
                         (case set_FormulaU sh1 ''PinY'' (VFloat fy) of
                            Inl reason \<Rightarrow> (Inl (com_error reason), self)
                          | Inr sh2 \<Rightarrow> (Inr PyNone, self\<lparr>self_shape := Some sh2\<rparr>))))))"

definition text_get :: "'a VisShape_scheme \<Rightarrow> pyval ret" where
  "text_get self =
     (case getattr_shape self ''Text'' of
        Inl e \<Rightarrow> Inl e
      | Inr sh \<Rightarrow> Inr (PyUnicode (shape_Text sh)))"

definition text_set :: "string \<Rightarrow> 'a VisShape_scheme \<Rightarrow> pyval ret \<times> 'a VisShape_scheme" where
  "text_set textval self =
     (case getattr_shape self ''Text'' of
        Inl e \<Rightarrow> (Inl e, self)
      | Inr sh \<Rightarrow> (Inr PyNone, self\<lparr>self_shape := Some (sh\<lparr>shape_Text := textval\<rparr>)\<rparr>))"

definition linecolor_get :: "'a VisShape_scheme \<Rightarrow> pyval ret" where
  "linecolor_get self = formula_get ''CellsU'' ''LineColor'' self"

definition linecolor_set :: "string \<Rightarrow> 'a VisShape_scheme \<Rightarrow> pyval ret \<times> 'a VisShape_scheme" where
  "linecolor_set fillformula self = formula_set ''CellsU'' ''LineColor'' (VStr fillformula) self"

definition fillcolor_get :: "'a VisShape_scheme \<Rightarrow> pyval ret" where
  "fillcolor_get self = formula_get ''CellsU'' ''Fillforegnd'' self"

definition fillcolor_set :: "string \<Rightarrow> 'a VisShape_scheme \<Rightarrow> pyval ret \<times> 'a VisShape_scheme" where
  "fillcolor_set fillformula self = formula_set ''CellsU'' ''Fillforegnd'' (VStr fillformula) self"

text \<open>\<open>"{0}".format(n)\<close> for an integer: its decimal digits.\<close>

fun str_nat :: "nat \<Rightarrow> string" where
  "str_nat n =
     (if n < 10 then [char_of (48 + n)] else str_nat (n div 10) @ [char_of (48 + n mod 10)])"

definition str_int :: "int \<Rightarrow> string" where
  "str_int i = (if i < 0 then CHR ''-'' # str_nat (nat (- i)) else str_nat (nat i))"

definition rgb_formula :: "int \<Rightarrow> int \<Rightarrow> int \<Rightarrow> string" where
  "rgb_formula red green blue =
     ''RGB('' @ str_int red @ '','' @ str_int green @ '','' @ str_int blue @ '')''"

definition setlinecolor ::
  "int \<Rightarrow> int \<Rightarrow> int \<Rightarrow> 'a VisShape_scheme \<Rightarrow> pyval ret \<times> 'a VisShape_scheme" where
  "setlinecolor red green blue self = linecolor_set (rgb_formula red green blue) self"

definition setfillcolor ::
  "int \<Rightarrow> int \<Rightarrow> int \<Rightarrow> 'a VisShape_scheme \<Rightarrow> pyval ret \<times> 'a VisShape_scheme" where
  "setfillcolor red green blue self = fillcolor_set (rgb_formula red green blue) self"

definition oneD :: "'a VisShape_scheme \<Rightarrow> pyval ret" where
  "oneD self =
     (case getattr_shape self ''OneD'' of
        Inl e \<Rightarrow> Inl e
      | Inr sh \<Rightarrow> Inr (PyBool (if OneD sh = 0 then False else True)))"

definition quoted :: "string \<Rightarrow> string" where
  \<comment> \<open>\<open>"=\"{0}\"".format(s)\<close>\<close>
  "quoted s = [CHR ''='', CHR 0x22] @ s @ [CHR 0x22]"

definition cell :: "string \<Rightarrow> 'a VisShape_scheme \<Rightarrow> pyval ret" where
  "cell cellid self =
     (case getattr_shape self ''CellExistsU'' of
        Inl e \<Rightarrow> Inl e
      | Inr sh \<Rightarrow>
          if \<not> (cells sh cellid \<noteq> None) then Inl (AttributeError [])
          else formula_get ''CellsU'' cellid self)"

definition setcell ::
  "string \<Rightarrow> string \<Rightarrow> bool \<Rightarrow> 'a VisShape_scheme \<Rightarrow> pyval ret \<times> 'a VisShape_scheme" where
  "setcell cellid cellvalue preformated self =
     (case getattr_shape self ''CellExistsU'' of
        Inl e \<Rightarrow> (Inl e, self)
      | Inr sh \<Rightarrow>
          if \<not> (cells sh cellid \<noteq> None) then (Inl (AttributeError []), self)
          else if preformated then formula_set ''CellsU'' cellid (VStr cellvalue) self
          else formula_set ''CellsU'' cellid (VStr (quoted cellvalue)) self)"

definition visDeleteNormal :: int where
  "visDeleteNormal = 0"

definition delete ::
  "(com_shape \<Rightarrow> int \<Rightarrow> com_exc option) \<Rightarrow> int \<Rightarrow> 'a VisShape_scheme
     \<Rightarrow> pyval ret \<times> 'a VisShape_scheme" where
  \<comment> \<open>\<open>DeleteEx\<close> is what \<open>self._shape.DeleteEx(flags)\<close> answers\<close>
  "delete DeleteEx flags self =
     (case getattr_shape self ''DeleteEx'' of
        Inl e \<Rightarrow> (Inl e, self)
      | Inr sh \<Rightarrow>
          (case DeleteEx sh flags of
             Some reason \<Rightarrow> (Inl (com_error reason), self)
           | None \<Rightarrow> (Inr PyNone, self\<lparr>self_shape := None\<rparr>)))"


section \<open>Connectors\<close>

fun py_split :: "char \<Rightarrow> string \<Rightarrow> string list" where
  \<comment> \<open>\<open>s.split(c)\<close> for a separator of one character\<close>
  "py_split c [] = [[]]"
| "py_split c (x # xs) =
     (if x = c then [] # py_split c xs
      else (case py_split c xs of
              [] \<Rightarrow> [[x]]
            | part # parts \<Rightarrow> (x # part) # parts))"

definition connector_type :: "com_shape \<Rightarrow> string" where
  \<comment> \<open>\<open>self._shape.NameU.split(".")[0]\<close>\<close>
  "connector_type sh = (case py_split CHR ''.'' (shape_NameU sh) of [] \<Rightarrow> [] | part # parts \<Rightarrow> part)"

definition Port_A :: string where "Port_A = ''Prop.Port_A_Port_Name''"
definition Port_B :: string where "Port_B = ''Prop.Port_B_Port_Name''"

text \<open>
  The getter of \<open>VisConnector.text\<close>; \<open>ResultStr\<close> is how the application evaluates the
  formula of a cell to a string.
\<close>

definition connector_text_get :: "(variant \<Rightarrow> string) \<Rightarrow> 'a VisShape_scheme \<Rightarrow> pyval ret" where
  "connector_text_get ResultStr self =
     (if self_type self = Some ''Data_Connect'' then
        (case getattr_shape self ''Cells'' of
           Inl e \<Rightarrow> Inl e
         | Inr sh \<Rightarrow>
             (case get_FormulaU sh Port_A of
                Inl reason \<Rightarrow> Inl (com_error reason)
              | Inr a \<Rightarrow>
                  (case get_FormulaU sh Port_B of
                     Inl reason \<Rightarrow> Inl (com_error reason)
                   | Inr b \<Rightarrow> Inr (PyUnicode (ResultStr a @ '';'' @ ResultStr b)))))
      else text_get self)"

text \<open>
  The setter: the unpacking \<open>descA, descB = textval.split(";")\<close> raises \<open>ValueError\<close>
  unless the list has two elements, before any cell is written.
\<close>

definition write_labels ::
  "string \<Rightarrow> string \<Rightarrow> 'a VisShape_scheme \<Rightarrow> pyval ret \<times> 'a VisShape_scheme" where
  "write_labels descA descB self =
     (case formula_set ''Cells'' Port_A (VStr (quoted descA)) self of
        (Inl e, self1) \<Rightarrow> (Inl e, self1)
      | (Inr r, self1) \<Rightarrow> formula_set ''Cells'' Port_B (VStr (quoted descB)) self1)"

definition connector_text_set ::
  "string \<Rightarrow> 'a VisShape_scheme \<Rightarrow> pyval ret \<times> 'a VisShape_scheme" where
  "connector_text_set textval self =
     (if self_type self = Some ''Data_Connect'' then
        (if list_ex (\<lambda>ch. ch = CHR '';'') textval then
           (case py_split CHR '';'' textval of
              [descA, descB] \<Rightarrow> write_labels descA descB self
            | [] \<Rightarrow> (Inl (ValueError (StrArg ''need more than 0 values to unpack'')), self)
            | [part] \<Rightarrow> (Inl (ValueError (StrArg ''need more than 1 value to unpack'')), self)
            | parts \<Rightarrow> (Inl (ValueError (StrArg ''too many values to unpack'')), self))
         else write_labels textval [] self)
      else text_set textval self)"

text \<open>
  \<open>route_style\<close> calls \<open>setcell\<close> on \<open>self._shape\<close>, the COM shape, and not on the
  wrapper; \<open>setcell\<close> is a method of the wrapper only, so the lookup of the attribute
  raises and the second branch is never taken.
\<close>

definition route_style :: "int \<Rightarrow> 'a VisShape_scheme \<Rightarrow> pyval ret \<times> 'a VisShape_scheme" where
  "route_style style self =
     (case getattr_shape self ''setcell'' of
        Inl e \<Rightarrow> (Inl e, self)
      | Inr sh \<Rightarrow> (Inr PyNone, self))"

section \<open>The operations of a shape object\<close>

text \<open>
  Every property and method of \<open>VisShape\<close> and \<open>VisConnector\<close> that can be used on an
  object once it exists. \<open>text\<close> is overridden in the subclass; \<open>route_style\<close> exists
  there only.
\<close>

datatype shape_op =
    Op_x | Op_set_x pynum
  | Op_y | Op_set_y pynum
  | Op_coords
  | Op_moveto pynum pynum
  | Op_w | Op_set_w pynum
  | Op_h | Op_set_h pynum
  | Op_text | Op_set_text string
  | Op_linecolor | Op_set_linecolor string
  | Op_setlinecolor int int int
  | Op_fillcolor | Op_set_fillcolor string
  | Op_setfillcolor int int int
  | Op_oneD
  | Op_cell string
  | Op_setcell string string bool
  | Op_delete int
  | Op_route_style int

fun perform ::
  "(com_shape \<Rightarrow> int \<Rightarrow> com_exc option) \<Rightarrow> (variant \<Rightarrow> string) \<Rightarrow> shape_op \<Rightarrow> 'a VisShape_scheme
     \<Rightarrow> pyval ret \<times> 'a VisShape_scheme" where
  "perform D R Op_x self = (x_get self, self)"
| "perform D R (Op_set_x v) self = x_set v self"
| "perform D R Op_y self = (y_get self, self)"
| "perform D R (Op_set_y v) self = y_set v self"
| "perform D R Op_coords self = (coords self, self)"
| "perform D R (Op_moveto x y) self = moveto x y self"
| "perform D R Op_w self = (w_get self, self)"
| "perform D R (Op_set_w v) self = w_set v self"
| "perform D R Op_h self = (h_get self, self)"
| "perform D R (Op_set_h v) self = h_set v self"
| "perform D R Op_text self =
     (if self_type self = None then (text_get self, self) else (connector_text_get R self, self))"
| "perform D R (Op_set_text t) self =
     (if self_type self = None then text_set t self else connector_text_set t self)"
| "perform D R Op_linecolor self = (linecolor_get self, self)"
| "perform D R (Op_set_linecolor f) self = linecolor_set f self"
| "perform D R (Op_setlinecolor r g b) self = setlinecolor r g b self"
| "perform D R Op_fillcolor self = (fillcolor_get self, self)"
| "perform D R (Op_set_fillcolor f) self = fillcolor_set f self"
| "perform D R (Op_setfillcolor r g b) self = setfillcolor r g b self"
| "perform D R Op_oneD self = (oneD self, self)"
| "perform D R (Op_cell c) self = (cell c self, self)"
| "perform D R (Op_setcell c v p) self = setcell c v p self"
| "perform D R (Op_delete flags) self = delete D flags self"
| "perform D R (Op_route_style style) self =
     (if self_type self = None then (Inl (AttributeError ''route_style''), self)
      else route_style style self)"


section \<open>Invariant of the stencil registry\<close>

definition master_names :: "stencil_doc \<Rightarrow> string set" where
  "master_names doc = master_NameU ` set (Masters doc)"

text \<open>
  A name has a resolution list exactly when some loaded library has a master of that
  name.
\<close>

definition registered_ok :: "VisStencils \<Rightarrow> bool" where
  "registered_ok self \<longleftrightarrow>
     (\<forall>N. shapes self N = None \<longleftrightarrow>
        (\<forall>k doc. stencils self k = Some doc \<longrightarrow> N \<notin> master_names doc))"


section \<open>Sample data\<close>

definition demo_world :: world where
  "demo_world =
     \<lparr>logged = [], com_trace = [], AlertResponse = 0, RasterExportUseTransparencyColor = 0\<rparr>"

definition demo_library :: "nat \<Rightarrow> stencil_doc" where
  "demo_library n =
     \<lparr>Masters = [\<lparr>master_NameU = ''Dynamic connector'', master_ID = n\<rparr>,
                 \<lparr>master_NameU = ''PC'', master_ID = n + 100\<rparr>]\<rparr>"

definition demo_OpenEx :: "string \<Rightarrow> int \<Rightarrow> com_exc + stencil_doc" where
  "demo_OpenEx filename flags =
     (if filename = ''basic.vss'' then Inr (demo_library 1)
      else if filename = ''data/network_connector.vss'' then Inr (demo_library 2)
      else if filename = ''periph_m.vss'' then Inr (demo_library 3)
      else if filename = ''old/periph_m.vsx'' then
        Inr \<lparr>Masters = [\<lparr>master_NameU = ''Plotter'', master_ID = 4\<rparr>]\<rparr>
      else Inl (visio_exception ''File not found.''))"



definition demo_once :: VisStencils where
  "demo_once =
     \<lparr>stencils = [''periph_m'' \<mapsto> demo_library 3],
      shapes = [''Dynamic connector'' \<mapsto> [''periph_m''], ''PC'' \<mapsto> [''periph_m'']]\<rparr>"

definition demo_stencils :: VisStencils where
  "demo_stencils =
     fst (add_stencils demo_OpenEx [''basic.vss'', ''data/network_connector.vss'', ''periph_m.vss'']
            VisStencils_empty demo_world)"


definition demo_shape :: com_shape where
  "demo_shape =
     \<lparr>cells = [''PinX'' \<mapsto> VStr ''GUARD(1.5 in)'', ''PinY'' \<mapsto> VFloat 0,
               ''Width'' \<mapsto> VStr ''Height*2'', ''Height'' \<mapsto> VFloat 1,
               ''LineColor'' \<mapsto> VStr ''THEMEVAL()'', ''Fillforegnd'' \<mapsto> VStr ''THEMEVAL()''],
      shape_Text = ''Box1'', OneD = 0, shape_NameU = ''Rectangle'', bbox = (0, 0, 1, 1)\<rparr>"

definition demo_VisShape :: VisShape where
  "demo_VisShape = \<lparr>self_shape = Some demo_shape, self_type = None\<rparr>"

definition demo_connector_shape :: com_shape where
  "demo_connector_shape =
     \<lparr>cells = [''PinX'' \<mapsto> VFloat 1, ''ShapeRouteStyle'' \<mapsto> VStr ''1'',
               ''Prop.Port_A_Port_Name'' \<mapsto> VStr [CHR ''='', CHR 0x22, CHR ''A'', CHR 0x22],
               ''Prop.Port_B_Port_Name'' \<mapsto> VStr [CHR ''='', CHR 0x22, CHR ''B'', CHR 0x22]],
      shape_Text = [], OneD = 1, shape_NameU = ''Data_Connect.12'', bbox = (0, 0, 1, 1)\<rparr>"

definition demo_connector :: VisShape where
  "demo_connector =
     \<lparr>self_shape = Some demo_connector_shape,
      self_type = Some (connector_type demo_connector_shape)\<rparr>"

definition demo_document :: VisDocument where
  "demo_document =
     \<lparr>self_filename = [],
      self_document = \<lparr>Pages = [\<lparr>page_NameU = ''Page-1'', AutoSize = False\<rparr>,
                               \<lparr>page_NameU = ''Page-2'', AutoSize = True\<rparr>]\<rparr>\<rparr>"

text \<open>
  An operation raised the error of the application after logging: the result is that
  error, the log has grown by the given entries and the line for the exception, and the
  trace by the given calls.
\<close>

definition reraised_after_logging ::
  "com_exc \<Rightarrow> log_entry list \<Rightarrow> com_call list \<Rightarrow> world \<Rightarrow> 'a ret \<Rightarrow> world \<Rightarrow> bool" where
  "reraised_after_logging reason entries calls w r w' \<longleftrightarrow>
     r = Inl (com_error reason)
     \<and> logged w' = logged w @ entries @ [LogError ''COM Exception: %s'' [LCom reason]]
     \<and> com_trace w' = com_trace w @ calls"

definition demo_PagesAdd :: "com_document \<Rightarrow> com_exc + string" where
  "demo_PagesAdd d = Inr ''Page-3''"

definition demo_failing_Drop :: "page_ref \<Rightarrow> master \<Rightarrow> real \<Rightarrow> real \<Rightarrow> com_exc + com_shape" where
  "demo_failing_Drop page stencil x y = Inl (visio_exception ''Object name not found.'')"

definition demo_master :: master where
  "demo_master = \<lparr>master_NameU = ''Rectangle'', master_ID = 7\<rparr>"

definition demo_failure :: com_exc where
  "demo_failure = visio_exception ''Object name not found.''"

section \<open>Properties of the path functions\<close>


































section \<open>Properties of the stencil registry\<close>

lemma register_masters_other:
  "N \<notin> master_NameU ` set ms \<Longrightarrow> register_masters key ms sh N = sh N"
  by (induction ms arbitrary: sh) (auto split: option.splits)

lemma register_masters_once:
  "distinct (map master_NameU ms) \<Longrightarrow> N \<in> master_NameU ` set ms \<Longrightarrow>
   register_masters key ms sh N = Some (key # (case sh N of None \<Rightarrow> [] | Some keys \<Rightarrow> keys))"
proof (induction ms arbitrary: sh)
  case Nil
  then show ?case by simp
next
  case (Cons m ms)
  show ?case
  proof (cases "master_NameU m = N")
    case True
    with Cons.prems have "N \<notin> master_NameU ` set ms" by auto
    then show ?thesis using True
      by (simp add: register_masters_other split: option.splits)
  next
    case False
    with Cons.prems have "distinct (map master_NameU ms)" "N \<in> master_NameU ` set ms"
      by auto
    from Cons.IH[OF this] show ?thesis using False
      by (simp split: option.splits)
  qed
qed

lemma register_masters_None:
  "register_masters key ms sh N = None \<longleftrightarrow> sh N = None \<and> N \<notin> master_NameU ` set ms"
  by (induction ms arbitrary: sh) (auto split: option.splits)

lemma add_stencil_known:
  "stencils self (stencil_key filename) \<noteq> None \<Longrightarrow>
   add_stencil OpenEx filename self w = (Inr (), self, w)"
  by (auto simp add: add_stencil_def Let_def)

lemma add_stencil_fresh:
  "stencils self (stencil_key filename) = None \<Longrightarrow> OpenEx filename visOpenDocked = Inr doc \<Longrightarrow>
   add_stencil OpenEx filename self w =
     (Inr (),
      self\<lparr>stencils := (stencils self)(stencil_key filename \<mapsto> doc),
           shapes := register_masters (stencil_key filename) (Masters doc) (shapes self)\<rparr>,
      com_invoke (Call_OpenEx filename visOpenDocked) w)"
  by (auto simp add: add_stencil_def Let_def)

lemma add_stencil_failed:
  "stencils self (stencil_key filename) = None \<Longrightarrow> OpenEx filename visOpenDocked = Inl reason \<Longrightarrow>
   fst (snd (add_stencil OpenEx filename self w)) = self"
  by (auto simp add: add_stencil_def Let_def)

lemma registered_ok_empty: "registered_ok VisStencils_empty"
  by (simp add: registered_ok_def VisStencils_empty_def)

lemma registered_ok_add_stencil:
  assumes "registered_ok self"
  shows "registered_ok (fst (snd (add_stencil OpenEx filename self w)))"
proof (cases "stencils self (stencil_key filename)")
  case (Some a)
  then show ?thesis using assms by (simp add: add_stencil_known)
next
  case None
  show ?thesis
  proof (cases "OpenEx filename visOpenDocked")
    case (Inl reason)
    then show ?thesis using None assms by (simp add: add_stencil_failed)
  next
    case (Inr doc)
    let ?key = "stencil_key filename"
    have upd: "(\<forall>k d. ((stencils self)(?key \<mapsto> doc)) k = Some d \<longrightarrow> N \<notin> master_names d) \<longleftrightarrow>
        N \<notin> master_names doc \<and> (\<forall>k d. stencils self k = Some d \<longrightarrow> N \<notin> master_names d)" for N
    proof
      assume a: "\<forall>k d. ((stencils self)(?key \<mapsto> doc)) k = Some d \<longrightarrow> N \<notin> master_names d"
      have "N \<notin> master_names doc" using a[rule_format, of ?key doc] by simp
      moreover have "N \<notin> master_names d" if "stencils self k = Some d" for k d
      proof -
        from that None have "k \<noteq> ?key" by auto
        with that show ?thesis using a[rule_format, of k d] by simp
      qed
      ultimately show "N \<notin> master_names doc \<and> (\<forall>k d. stencils self k = Some d \<longrightarrow> N \<notin> master_names d)"
        by blast
    next
      assume b: "N \<notin> master_names doc \<and> (\<forall>k d. stencils self k = Some d \<longrightarrow> N \<notin> master_names d)"
      show "\<forall>k d. ((stencils self)(?key \<mapsto> doc)) k = Some d \<longrightarrow> N \<notin> master_names d"
        using b by (simp split: if_splits)
    qed
    have "(register_masters ?key (Masters doc) (shapes self) N = None) =
          (\<forall>k d. ((stencils self)(?key \<mapsto> doc)) k = Some d \<longrightarrow> N \<notin> master_names d)" for N
      using assms unfolding upd register_masters_None registered_ok_def
      by (simp add: master_names_def conj_commute)
    then show ?thesis using None Inr
      by (simp add: add_stencil_fresh registered_ok_def)
  qed
qed

lemma registered_ok_add_stencils:
  "registered_ok self \<Longrightarrow> add_stencils OpenEx fs self w = (self', w') \<Longrightarrow> registered_ok self'"
proof (induction fs arbitrary: self w)
  case Nil
  then show ?case by simp
next
  case (Cons f fs)
  obtain r s1 w1 where a: "add_stencil OpenEx f self w = (r, s1, w1)"
    by (cases "add_stencil OpenEx f self w") auto
  with registered_ok_add_stencil[OF Cons.prems(1), of OpenEx f w] have "registered_ok s1" by simp
  with Cons.IH[of s1 w1] Cons.prems(2) a show ?case by simp
qed

lemma Masters_ItemU_Inr:
  "Masters_ItemU doc name = Inr m \<Longrightarrow> name \<in> master_names doc"
  by (auto simp: Masters_ItemU_def master_names_def find_Some_iff split: option.splits)

lemma get_unregistered:
  assumes "registered_ok self"
    and "\<forall>k doc. stencils self k = Some doc \<longrightarrow> N \<notin> master_names doc"
  shows "fst (get self N i w) = Inl (KeyError N)"
proof -
  from assms have "shapes self N = None" by (simp add: registered_ok_def)
  then show ?thesis by (simp add: get_def)
qed

lemma get_at:
  assumes "shapes self X = Some keys" and "0 \<le> i" and "i < int (length keys)"
    and "stencils self (keys ! nat i) = Some doc" and "Masters_ItemU doc X = Inr m"
  shows "get self X i w = (Inr m, w)"
  using assms by (simp add: get_def)

lemma get_bad_index:
  assumes "shapes self X = Some keys" and "i < 0 \<or> int (length keys) \<le> i"
  shows "fst (get self X i w) = Inl (ValueError (IntArg i))"
  using assms by (auto simp: get_def)

text \<open>
  Claim C1. Three libraries with different keys are loaded in the order \<open>f1\<close>, \<open>f2\<close>,
  \<open>f3\<close> into an object in which no loaded library defines \<open>X\<close>; each of them opens and
  defines a master named \<open>X\<close> (master names are unique inside a library). Then
  \<open>get(X, 0)\<close> is the master of the third library, \<open>get(X, 1)\<close> that of the second,
  \<open>get(X, 2)\<close> that of the first, \<open>get(X, 3)\<close> raises \<open>ValueError(3)\<close>, and
  \<open>get(N, i)\<close> raises \<open>KeyError(N)\<close> for every index when no loaded library has a
  master named \<open>N\<close>.
\<close>

theorem get_resolves_last_loaded_first:
  assumes hist: "add_stencils OpenEx pre VisStencils_empty w0 = (s0, w1)"
    and newX: "\<forall>k doc. stencils s0 k = Some doc \<longrightarrow> X \<notin> master_names doc"
    and fresh: "stencils s0 (stencil_key f1) = None" "stencils s0 (stencil_key f2) = None"
      "stencils s0 (stencil_key f3) = None"
    and keys: "distinct [stencil_key f1, stencil_key f2, stencil_key f3]"
    and opened: "OpenEx f1 visOpenDocked = Inr L1" "OpenEx f2 visOpenDocked = Inr L2"
      "OpenEx f3 visOpenDocked = Inr L3"
    and uniq: "distinct (map master_NameU (Masters L1))" "distinct (map master_NameU (Masters L2))"
      "distinct (map master_NameU (Masters L3))"
    and defs: "Masters_ItemU L1 X = Inr m1" "Masters_ItemU L2 X = Inr m2"
      "Masters_ItemU L3 X = Inr m3"
    and loads: "add_stencils OpenEx [f1, f2, f3] s0 w1 = (s3, w3)"
  shows "get s3 X 0 w = (Inr m3, w) \<and> get s3 X 1 w = (Inr m2, w) \<and> get s3 X 2 w = (Inr m1, w)
    \<and> fst (get s3 X 3 w) = Inl (ValueError (IntArg 3))
    \<and> (\<forall>N i. (\<forall>k doc. stencils s3 k = Some doc \<longrightarrow> N \<notin> master_names doc)
          \<longrightarrow> fst (get s3 N i w) = Inl (KeyError N))"
proof -
  let ?k1 = "stencil_key f1" and ?k2 = "stencil_key f2" and ?k3 = "stencil_key f3"
  have ok0: "registered_ok s0"
    using registered_ok_add_stencils[OF registered_ok_empty hist] .
  have ok3: "registered_ok s3"
    using registered_ok_add_stencils[OF ok0 loads] .
  have X0: "shapes s0 X = None"
    using ok0 newX by (simp add: registered_ok_def)
  have inL: "X \<in> master_NameU ` set (Masters L1)" "X \<in> master_NameU ` set (Masters L2)"
    "X \<in> master_NameU ` set (Masters L3)"
    using defs[THEN Masters_ItemU_Inr] by (simp_all add: master_names_def)
  define s1 where "s1 = s0\<lparr>stencils := (stencils s0)(?k1 \<mapsto> L1),
    shapes := register_masters ?k1 (Masters L1) (shapes s0)\<rparr>"
  define s2 where "s2 = s1\<lparr>stencils := (stencils s1)(?k2 \<mapsto> L2),
    shapes := register_masters ?k2 (Masters L2) (shapes s1)\<rparr>"
  have a1: "add_stencil OpenEx f1 s0 w1 = (Inr (), s1, com_invoke (Call_OpenEx f1 visOpenDocked) w1)"
    using fresh(1) opened(1) by (simp add: add_stencil_fresh s1_def)
  have f2: "stencils s1 ?k2 = None" using fresh(2) keys by (auto simp: s1_def)
  have a2: "\<And>w. add_stencil OpenEx f2 s1 w = (Inr (), s2, com_invoke (Call_OpenEx f2 visOpenDocked) w)"
    using f2 opened(2) by (simp add: add_stencil_fresh s2_def)
  have f3: "stencils s2 ?k3 = None" using fresh(3) keys by (auto simp: s1_def s2_def)
  have a3: "\<And>w. add_stencil OpenEx f3 s2 w =
      (Inr (), s2\<lparr>stencils := (stencils s2)(?k3 \<mapsto> L3),
        shapes := register_masters ?k3 (Masters L3) (shapes s2)\<rparr>,
       com_invoke (Call_OpenEx f3 visOpenDocked) w)"
    using f3 opened(3) by (simp add: add_stencil_fresh)
  have s3: "s3 = s2\<lparr>stencils := (stencils s2)(?k3 \<mapsto> L3),
        shapes := register_masters ?k3 (Masters L3) (shapes s2)\<rparr>"
    using loads by (simp add: a1 a2 a3)
  have X1: "shapes s1 X = Some [?k1]"
    using register_masters_once[OF uniq(1) inL(1), of ?k1 "shapes s0"] X0 by (simp add: s1_def)
  have X2: "shapes s2 X = Some [?k2, ?k1]"
    using register_masters_once[OF uniq(2) inL(2), of ?k2 "shapes s1"] X1 by (simp add: s2_def)
  have X3: "shapes s3 X = Some [?k3, ?k2, ?k1]"
    using register_masters_once[OF uniq(3) inL(3), of ?k3 "shapes s2"] X2 by (simp add: s3)
  have st: "stencils s3 ?k3 = Some L3" "stencils s3 ?k2 = Some L2" "stencils s3 ?k1 = Some L1"
    using keys by (auto simp: s3 s2_def s1_def)
  have g0: "get s3 X 0 w = (Inr m3, w)"
    using get_at[OF X3, of 0 L3 m3 w] st defs by simp
  have g1: "get s3 X 1 w = (Inr m2, w)"
    using get_at[OF X3, of 1 L2 m2 w] st defs by simp
  have g2: "get s3 X 2 w = (Inr m1, w)"
    using get_at[OF X3, of 2 L1 m1 w] st defs by simp
  have g3: "fst (get s3 X 3 w) = Inl (ValueError (IntArg 3))"
    using get_bad_index[OF X3, of 3 w] by simp
  have gN: "\<forall>N i. (\<forall>k doc. stencils s3 k = Some doc \<longrightarrow> N \<notin> master_names doc)
          \<longrightarrow> fst (get s3 N i w) = Inl (KeyError N)"
    using get_unregistered[OF ok3] by blast
  from g0 g1 g2 g3 gN show ?thesis by blast
qed

lemma demo_keys:
  "stencil_key ''basic.vss'' = ''basic''"
  "stencil_key ''data/network_connector.vss'' = ''network_connector''"
  "stencil_key ''periph_m.vss'' = ''periph_m''"
  "stencil_key ''old/periph_m.vsx'' = ''periph_m''"
  by code_simp+

theorem get_resolves_last_loaded_first_witness:
  "get demo_stencils ''Dynamic connector'' 0 demo_world =
     (Inr \<lparr>master_NameU = ''Dynamic connector'', master_ID = 3\<rparr>, demo_world)
   \<and> get demo_stencils ''Dynamic connector'' 1 demo_world =
     (Inr \<lparr>master_NameU = ''Dynamic connector'', master_ID = 2\<rparr>, demo_world)
   \<and> get demo_stencils ''Dynamic connector'' 2 demo_world =
     (Inr \<lparr>master_NameU = ''Dynamic connector'', master_ID = 1\<rparr>, demo_world)
   \<and> fst (get demo_stencils ''Dynamic connector'' 3 demo_world) = Inl (ValueError (IntArg 3))
   \<and> fst (get demo_stencils ''NonExistingShape'' 0 demo_world) = Inl (KeyError ''NonExistingShape'')"
proof -
  have defs: "Masters_ItemU (demo_library n) ''Dynamic connector'' =
      Inr \<lparr>master_NameU = ''Dynamic connector'', master_ID = n\<rparr>" for n
    by (simp add: Masters_ItemU_def demo_library_def)
  have uniq: "distinct (map master_NameU (Masters (demo_library n)))" for n
    by (simp add: demo_library_def)
  have nope: "\<forall>k doc. stencils demo_stencils k = Some doc \<longrightarrow> ''NonExistingShape'' \<notin> master_names doc"
    by (simp add: demo_stencils_def add_stencil_def Let_def demo_keys VisStencils_empty_def
        demo_OpenEx_def master_names_def demo_library_def)
  show ?thesis
    using get_resolves_last_loaded_first [of demo_OpenEx "[]" demo_world
        VisStencils_empty demo_world "''Dynamic connector''"
        "''basic.vss''" "''data/network_connector.vss''" "''periph_m.vss''"
        "demo_library 1" "demo_library 2" "demo_library 3"
        "\<lparr>master_NameU = ''Dynamic connector'', master_ID = 1\<rparr>"
        "\<lparr>master_NameU = ''Dynamic connector'', master_ID = 2\<rparr>"
        "\<lparr>master_NameU = ''Dynamic connector'', master_ID = 3\<rparr>"
        demo_stencils
        "snd (add_stencils demo_OpenEx [''basic.vss'', ''data/network_connector.vss'', ''periph_m.vss'']
            VisStencils_empty demo_world)" demo_world]
      defs uniq nope
    by (simp add: demo_keys demo_OpenEx_def VisStencils_empty_def demo_stencils_def)
qed

text \<open>
  Claim C2. When a call of \<open>add_stencil\<close> has returned, a second call with a file name of
  the same key returns without any effect: the two dictionaries, the log and the trace of
  calls into the application (so the file is not opened again) are as the first call left
  them, whatever the application would have answered.
\<close>

theorem add_stencil_idempotent:
  assumes "stencil_key f1 = stencil_key f2"
    and "add_stencil OpenEx f1 self w = (Inr (), s1, w1)"
  shows "add_stencil OpenEx' f2 s1 w1 = (Inr (), s1, w1)"
proof -
  have "stencils s1 (stencil_key f1) \<noteq> None"
    using assms(2) by (auto simp: add_stencil_def Let_def split: if_splits sum.splits)
  with assms(1) show ?thesis by (simp add: add_stencil_known)
qed

theorem add_stencil_idempotent_witness:
  "add_stencil demo_OpenEx ''periph_m.vss'' demo_once (com_invoke (Call_OpenEx ''periph_m.vss'' 4) demo_world)
     = (Inr (), demo_once, com_invoke (Call_OpenEx ''periph_m.vss'' 4) demo_world)"
proof -
  have first: "add_stencil demo_OpenEx ''periph_m.vss'' VisStencils_empty demo_world =
      (Inr (), demo_once, com_invoke (Call_OpenEx ''periph_m.vss'' 4) demo_world)"
    by (simp add: add_stencil_def Let_def demo_keys VisStencils_empty_def demo_OpenEx_def
        demo_once_def visOpenDocked_def demo_library_def)
  show ?thesis
    using add_stencil_idempotent [of "''periph_m.vss''" "''periph_m.vss''" demo_OpenEx
        VisStencils_empty demo_world demo_once
        "com_invoke (Call_OpenEx ''periph_m.vss'' 4) demo_world" demo_OpenEx] first
    by simp
qed






section \<open>Properties of the conversion to float\<close>

lemma bit_length_bound: "n < 2 ^ k \<Longrightarrow> bit_length n \<le> k"
proof (induction k arbitrary: n)
  case 0
  then have "n = 0" by simp
  then show ?case by simp
next
  case (Suc k)
  show ?case
  proof (cases "n = 0")
    case True
    then show ?thesis by simp
  next
    case False
    from Suc.prems have "n div 2 < 2 ^ k" by simp
    then have "bit_length (n div 2) \<le> k" by (rule Suc.IH)
    with False show ?thesis by (subst bit_length.simps) simp
  qed
qed

text \<open>An integer below \<open>2 ^ 53\<close> in absolute value is converted exactly.\<close>

lemma float_of_int_exact:
  assumes "\<bar>i\<bar> < 2 ^ 53"
  shows "float_of_int i = Inr (of_int i)"
proof -
  have "nat \<bar>i\<bar> < 2 ^ 53" using assms by (simp add: nat_less_iff)
  then have "bit_length (nat \<bar>i\<bar>) \<le> 53" by (rule bit_length_bound)
  then show ?thesis by (simp add: float_of_int_def Let_def)
qed

lemma float_of_int_five: "float_of_int 5 = Inr 5"
  using float_of_int_exact[of 5] by simp

lemma float_of_int_one: "float_of_int 1 = Inr 1"
  using float_of_int_exact[of 1] by simp

section \<open>Properties of documents\<close>

lemma position_of_new:
  assumes "\<forall>q \<in> set ps. page_NameU q \<noteq> n" and "page_NameU p = n"
  shows "position_of n (ps @ [p]) = Some (length ps)"
  using assms by (induction ps) auto

lemma contains_iff: "contains self name \<longleftrightarrow> name \<in> page_NameU ` set (Pages (self_document self))"
  by (auto simp: contains_def iter_def list_ex_iff)

lemma rename_new_page:
  assumes "\<forall>q \<in> set ps. page_NameU q \<noteq> n"
  shows "set_page_NameU (length ps) n (ps @ [p]) = Inr (ps @ [p\<lparr>page_NameU := n\<rparr>])"
proof -
  have "\<not> list_ex (\<lambda>j. j \<noteq> length ps \<and> page_NameU ((ps @ [p]) ! j) = n) [0..<length (ps @ [p])]"
    using assms by (auto simp: list_ex_iff nth_append less_Suc_eq)
  then show ?thesis by (simp add: set_page_NameU_def)
qed

text \<open>
  Claim C8, as amended. When the application adds the page and no page of the document
  has the name yet, \<open>add(name)\<close> returns the position of the new page, which is the new number of
  pages; the pages are the old ones followed by one page of that name with \<open>AutoSize\<close>
  set; the name passes the membership test, and the lookup by the name and the lookup by
  the returned index both give the new page.
\<close>

theorem add_named_page:
  assumes added: "PagesAdd (self_document self) = Inr default_name"
    and unused: "\<not> contains self name"
    and call: "add PagesAdd (Some name) self w = (r, self', w')"
  shows "r = Inr (len self + 1)
    \<and> Pages (self_document self') =
        Pages (self_document self) @ [\<lparr>page_NameU = name, AutoSize = True\<rparr>]
    \<and> len self' = len self + 1
    \<and> contains self' name
    \<and> VisDocument_getitem self' (PageName name) w' = (Inr (nat (len self)), w')
    \<and> VisDocument_getitem self' (PageIndex (len self + 1)) w' = (Inr (nat (len self)), w')
    \<and> page_Index (nat (len self)) = len self + 1"
proof -
  let ?ps = "Pages (self_document self)"
  have fresh: "\<forall>q \<in> set ?ps. page_NameU q \<noteq> name"
    using unused by (auto simp: contains_iff)
  have ren: "set_page_NameU (length ?ps) name (?ps @ [\<lparr>page_NameU = default_name, AutoSize = True\<rparr>])
      = Inr (?ps @ [\<lparr>page_NameU = name, AutoSize = True\<rparr>])"
    using rename_new_page[OF fresh, of "\<lparr>page_NameU = default_name, AutoSize = True\<rparr>"] by simp
  have res: "r = Inr (len self + 1)"
    "self' = self\<lparr>self_document := (self_document self)\<lparr>Pages := ?ps @ [\<lparr>page_NameU = name, AutoSize = True\<rparr>]\<rparr>\<rparr>"
    using call added ren
    by (simp_all add: add_def Let_def Pages_Add_def set_page_AutoSize_def page_Index_def len_def)
  have pages: "Pages (self_document self') = ?ps @ [\<lparr>page_NameU = name, AutoSize = True\<rparr>]"
    by (simp add: res(2))
  have l: "len self' = len self + 1" by (simp add: len_def pages)
  have c: "contains self' name" by (simp add: contains_iff pages)
  have pos: "position_of name (Pages (self_document self')) = Some (length ?ps)"
    unfolding pages using position_of_new[OF fresh] by simp
  have g1: "VisDocument_getitem self' (PageName name) w' = (Inr (nat (len self)), w')"
    by (simp add: VisDocument_getitem_def Pages_ItemU_def pos len_def)
  have g2: "VisDocument_getitem self' (PageIndex (len self + 1)) w' = (Inr (nat (len self)), w')"
    by (simp add: VisDocument_getitem_def Pages_ItemU_def pages len_def)
  have ix: "page_Index (nat (len self)) = len self + 1"
    by (simp add: page_Index_def len_def)
  from res(1) pages l c g1 g2 ix show ?thesis by blast
qed

theorem add_named_page_witness:
  "add (\<lambda>d. Inr ''Page-3'') (Some ''TestPage'') demo_document demo_world =
     (Inr 3,
      demo_document\<lparr>self_document := \<lparr>Pages = [\<lparr>page_NameU = ''Page-1'', AutoSize = False\<rparr>,
                               \<lparr>page_NameU = ''Page-2'', AutoSize = True\<rparr>,
                               \<lparr>page_NameU = ''TestPage'', AutoSize = True\<rparr>]\<rparr>\<rparr>,
      com_invoke Call_Pages_Add demo_world)
   \<and> contains (fst (snd (add (\<lambda>d. Inr ''Page-3'') (Some ''TestPage'') demo_document demo_world)))
        ''TestPage''
   \<and> fst (VisDocument_getitem
        (fst (snd (add (\<lambda>d. Inr ''Page-3'') (Some ''TestPage'') demo_document demo_world)))
        (PageName ''TestPage'') (com_invoke Call_Pages_Add demo_world)) = Inr 2"
proof -
  let ?res = "add (\<lambda>d. Inr ''Page-3'') (Some ''TestPage'') demo_document demo_world"
  have unused: "\<not> contains demo_document ''TestPage''"
    by (simp add: contains_def iter_def demo_document_def)
  have l: "len demo_document = 2" by (simp add: len_def demo_document_def)
  have call: "?res = (Inr 3,
      demo_document\<lparr>self_document := \<lparr>Pages = [\<lparr>page_NameU = ''Page-1'', AutoSize = False\<rparr>,
                               \<lparr>page_NameU = ''Page-2'', AutoSize = True\<rparr>,
                               \<lparr>page_NameU = ''TestPage'', AutoSize = True\<rparr>]\<rparr>\<rparr>,
      com_invoke Call_Pages_Add demo_world)"
    by (simp add: add_def Let_def Pages_Add_def set_page_AutoSize_def set_page_NameU_def
        page_Index_def demo_document_def upt_rec)
  show ?thesis
    using add_named_page [of "\<lambda>d. Inr ''Page-3''" demo_document "''Page-3''" "''TestPage''"
        demo_world "fst ?res" "fst (snd ?res)" "snd (snd ?res)"] unused l call
    by simp
qed

text \<open>
  The claim C8 as stated fails for a name that a page of the document has already: the
  application refuses the name, \<open>add\<close> raises the error of the application instead of
  returning an index, and the page that was added stays under the name the application
  gave it.
\<close>

theorem add_existing_name_raises:
  "add demo_PagesAdd (Some ''Page-1'') demo_document demo_world =
     (Inl (com_error (visio_exception ''A page with this name already exists.'')),
      demo_document\<lparr>self_document := \<lparr>Pages = [\<lparr>page_NameU = ''Page-1'', AutoSize = False\<rparr>,
                               \<lparr>page_NameU = ''Page-2'', AutoSize = True\<rparr>,
                               \<lparr>page_NameU = ''Page-3'', AutoSize = True\<rparr>]\<rparr>\<rparr>,
      demo_world\<lparr>com_trace := [Call_Pages_Add]\<rparr>)
   \<and> contains demo_document ''Page-1''"
  by (simp add: add_def Let_def Pages_Add_def set_page_AutoSize_def set_page_NameU_def
      page_Index_def demo_document_def upt_rec com_invoke_def demo_world_def contains_def
      iter_def demo_PagesAdd_def)


text \<open>
  Claim C6. \<open>close(nosave=True)\<close> with the alert response 0 in force and a \<open>Close\<close>
  call that fails: the error is logged and raised, and the alert response stays 7. When
  \<open>Close\<close> succeeds the setting is 0 again.
\<close>

theorem close_failure_leaves_alert_response:
  "close (\<lambda>d a. Some (visio_exception ''Close failed.'')) demo_document True demo_world =
     (Inl (com_error (visio_exception ''Close failed.'')),
      demo_world\<lparr>logged := [LogError ''Failed to print document'' [],
                             LogError ''COM Exception: %s'' [LCom (visio_exception ''Close failed.'')]],
                 com_trace := [Call_Close], AlertResponse := 7\<rparr>)
   \<and> AlertResponse demo_world = 0
   \<and> AlertResponse (snd (close (\<lambda>d a. Some (visio_exception ''Close failed.'')) demo_document True
        demo_world)) = 7
   \<and> AlertResponse (snd (close (\<lambda>d a. None) demo_document True demo_world)) = 0"
  by (simp add: close_def Let_def log_error_def com_invoke_def demo_world_def)


text \<open>
  Claim C5, as amended. Each of these eleven calls into the application is wrapped in
  \<open>try\<close>: \<open>Documents.Add\<close> and \<open>Documents.Open\<close> in the constructor of a document,
  \<open>Pages.Add\<close> in \<open>add\<close>, \<open>Pages.ItemU\<close> in the page lookup, \<open>Save\<close>, \<open>SaveAs\<close>,
  \<open>Print\<close>, \<open>ExportAsFixedFormat\<close>, \<open>Close\<close> in \<open>close\<close>, \<open>OpenEx\<close> in
  \<open>add_stencil\<close> and \<open>Export\<close> of a master. When such a call fails, the operation logs
  its description and the error, and then raises the same error; the trace shows the one
  call (the page lookup is not traced). The constructor of a shape raises the error of a
  failing \<open>Drop\<close> unchanged, after that one call.
\<close>

theorem guarded_calls_log_then_reraise:
  "(Documents_Add filename = Inl reason \<longrightarrow>
      (case VisDocument_init Documents_Add Documents_Open filename False w of (r, w') \<Rightarrow>
         reraised_after_logging reason
           [LogError ''Loading of document failed for: %s'' [LStr filename]]
           [Call_Documents_Add filename] w r w'))
   \<and> (Documents_Open filename = Inl reason \<longrightarrow>
      (case VisDocument_init Documents_Add Documents_Open filename True w of (r, w') \<Rightarrow>
         reraised_after_logging reason
           [LogError ''Loading of document failed for: %s'' [LStr filename]]
           [Call_Documents_Open filename] w r w'))
   \<and> (PagesAdd (self_document doc) = Inl reason \<longrightarrow>
      (case add PagesAdd (Some name) doc w of (r, doc', w') \<Rightarrow>
         doc' = doc \<and> reraised_after_logging reason
           [LogError ''Page adding failed for page: %s'' [LStr name]] [Call_Pages_Add] w r w'))
   \<and> (Pages_ItemU (Pages (self_document doc)) page = Inl reason \<longrightarrow>
      (case VisDocument_getitem doc page w of (r, w') \<Rightarrow>
         reraised_after_logging reason
           [LogError (''Getting page '' @ [CHR 0x27] @ ''%s'' @ [CHR 0x27] @ '' failed'')
              [case page of PageIndex i \<Rightarrow> LInt i | PageName n \<Rightarrow> LStr n]] [] w r w'))
   \<and> (Save (self_document doc) = Some reason \<longrightarrow>
      (case save Save doc w of (r, w') \<Rightarrow>
         reraised_after_logging reason [LogError ''Failed to save document to file'' []]
           [Call_Save] w r w'))
   \<and> (SaveAs (self_document doc) filename = Some reason \<longrightarrow>
      (case saveAs SaveAs doc filename w of (r, w') \<Rightarrow>
         reraised_after_logging reason
           [LogError ''Failed to save document to file: %s'' [LStr filename]]
           [Call_SaveAs filename] w r w'))
   \<and> (Print (self_document doc) = Some reason \<longrightarrow>
      (case printDefault Print doc w of (r, w') \<Rightarrow>
         reraised_after_logging reason [LogError ''Failed to print document'' []]
           [Call_Print] w r w'))
   \<and> (ExportAsFixedFormat (self_document doc) 1 filename 1 0 = Some reason \<longrightarrow>
      (case VisDocument_export ExportAsFixedFormat doc filename w of (r, w') \<Rightarrow>
         reraised_after_logging reason [LogError ''Failed to print document'' []]
           [Call_ExportAsFixedFormat filename] w r w'))
   \<and> (Close (self_document doc) (if nosave then 7 else AlertResponse w) = Some reason \<longrightarrow>
      (case close Close doc nosave w of (r, w') \<Rightarrow>
         reraised_after_logging reason [LogError ''Failed to print document'' []]
           [Call_Close] w r w'))
   \<and> (stencils vs (stencil_key filename) = None \<and> OpenEx filename visOpenDocked = Inl reason \<longrightarrow>
      (case add_stencil OpenEx filename vs w of (r, vs', w') \<Rightarrow>
         vs' = vs \<and> reraised_after_logging reason
           [LogError ''Loading of stencil file failed for: %s'' [LStr filename]]
           [Call_OpenEx filename visOpenDocked] w r w'))
   \<and> (get lib shape index (w\<lparr>RasterExportUseTransparencyColor := - 1\<rparr>) = (Inr m, wg)
        \<and> Export m filename = Some reason \<longrightarrow>
      VisStencils_export Export lib filename shape index w =
        (Inl (com_error reason),
         wg\<lparr>logged := logged wg @ [LogError ''Export failed: %s'' [LCom reason]],
            com_trace := com_trace wg @ [Call_Export filename]\<rparr>))
   \<and> (py_float x = Inr fx \<and> py_float y = Inr fy
        \<and> Drop (case page_arg of None \<Rightarrow> active | Some p \<Rightarrow> p) stencil fx fy = Inl reason \<longrightarrow>
      VisShape_init Drop active stencil page_arg x y w =
        (Inl (com_error reason), com_invoke Call_Drop w))"
  by (simp add: reraised_after_logging_def VisDocument_init_def add_def VisDocument_getitem_def
      save_def saveAs_def printDefault_def VisDocument_export_def close_def add_stencil_def
      VisShape_init_def VisStencils_export_def Let_def log_error_def com_invoke_def)

theorem guarded_calls_log_then_reraise_witness:
  "reraised_after_logging demo_failure [LogError ''Failed to save document to file'' []] [Call_Save]
     demo_world (fst (save (\<lambda>d. Some demo_failure) demo_document demo_world))
     (snd (save (\<lambda>d. Some demo_failure) demo_document demo_world))
   \<and> reraised_after_logging demo_failure
       [LogError (''Getting page '' @ [CHR 0x27] @ ''%s'' @ [CHR 0x27] @ '' failed'')
          [LStr ''UnknownPage'']] []
       demo_world (fst (VisDocument_getitem demo_document (PageName ''UnknownPage'') demo_world))
       (snd (VisDocument_getitem demo_document (PageName ''UnknownPage'') demo_world))
   \<and> reraised_after_logging demo_failure
       [LogError ''Loading of stencil file failed for: %s'' [LStr ''wrong name.vss'']]
       [Call_OpenEx ''wrong name.vss'' visOpenDocked] demo_world
       (fst (add_stencil (\<lambda>f flags. Inl demo_failure) ''wrong name.vss'' VisStencils_empty demo_world))
       (snd (snd (add_stencil (\<lambda>f flags. Inl demo_failure) ''wrong name.vss'' VisStencils_empty
          demo_world)))
   \<and> fst (VisStencils_export (\<lambda>m f. Some demo_failure) demo_once ''wrong name.vss'' ''PC'' 0
        demo_world) = Inl (com_error demo_failure)
   \<and> logged (snd (VisStencils_export (\<lambda>m f. Some demo_failure) demo_once ''wrong name.vss'' ''PC'' 0
        demo_world)) = [LogError ''Export failed: %s'' [LCom demo_failure]]"
proof -
  have item: "Pages_ItemU (Pages (self_document demo_document)) (PageName ''UnknownPage'') =
      Inl demo_failure"
    by (simp add: Pages_ItemU_def demo_document_def demo_failure_def)
  have fresh: "stencils VisStencils_empty (stencil_key ''wrong name.vss'') = None"
    by (simp add: VisStencils_empty_def)
  have pc: "get demo_once ''PC'' 0 (demo_world\<lparr>RasterExportUseTransparencyColor := - 1\<rparr>) =
      (Inr \<lparr>master_NameU = ''PC'', master_ID = 103\<rparr>,
       demo_world\<lparr>RasterExportUseTransparencyColor := - 1\<rparr>)"
    by (simp add: get_def demo_once_def Masters_ItemU_def demo_library_def)
  have quiet: "logged demo_world = []"
    by (simp add: demo_world_def)
  show ?thesis
    using guarded_calls_log_then_reraise
      [where Documents_Add = "\<lambda>f. Inl demo_failure" and Documents_Open = "\<lambda>f. Inl demo_failure"
        and filename = "''wrong name.vss''" and reason = demo_failure and w = demo_world
        and PagesAdd = "\<lambda>d. Inl demo_failure" and doc = demo_document and name = "''TestPage''"
        and page = "PageName ''UnknownPage''" and Save = "\<lambda>d. Some demo_failure"
        and SaveAs = "\<lambda>d f. Some demo_failure" and Print = "\<lambda>d. Some demo_failure"
        and ExportAsFixedFormat = "\<lambda>d a f b c. Some demo_failure"
        and Close = "\<lambda>d a. Some demo_failure" and nosave = True and vs = VisStencils_empty and lib = demo_once
        and OpenEx = "\<lambda>f flags. Inl demo_failure"
        and shape = "''PC''" and index = 0 and m = "\<lparr>master_NameU = ''PC'', master_ID = 103\<rparr>"
        and wg = "demo_world\<lparr>RasterExportUseTransparencyColor := - 1\<rparr>"
        and Export = "\<lambda>m f. Some demo_failure"
        and Drop = "\<lambda>p m x y. Inl demo_failure" and active = "0 :: page_ref"
        and page_arg = "Some 1" and stencil = demo_master and x = "Int_num 1" and y = "Int_num 1"
        and fx = 1 and fy = 1]
      item fresh pc quiet float_of_int_one
    by (simp add: case_prod_beta)
qed

text \<open>
  The claim C5 as stated fails at the construction of a shape: a failing \<open>Drop\<close> raises
  the error and nothing is logged.
\<close>

theorem unguarded_call_is_not_logged:
  "VisShape_init demo_failing_Drop 0 demo_master (Some 1) (Int_num 1) (Int_num 1) demo_world =
     (Inl (com_error demo_failure), demo_world\<lparr>com_trace := [Call_Drop]\<rparr>)
   \<and> logged (snd (VisShape_init demo_failing_Drop 0 demo_master (Some 1) (Int_num 1) (Int_num 1)
        demo_world)) = []
   \<and> logged demo_world = []"
  by (simp add: VisShape_init_def float_of_int_one com_invoke_def demo_world_def
      demo_failing_Drop_def demo_failure_def)

section \<open>Properties of shapes and connectors\<close>

lemma demo_connector_type: "connector_type demo_connector_shape = ''Data_Connect''"
  by (simp add: connector_type_def demo_connector_shape_def)

lemma cell_get_never_float: "cell_get attr name self \<noteq> Inr (PyFloat v)"
  by (simp add: cell_get_def split: sum.splits)

text \<open>
  Claim C3. The setter of \<open>x\<close> replaces the formula of the cell \<open>PinX\<close> by the number,
  whatever formula the cell held. The getter evaluated afterwards does not return that
  number: it returns the COM cell object (the source notes this above the getter of
  \<open>w\<close>). The same holds for \<open>y\<close>, \<open>w\<close> and \<open>h\<close>.
\<close>

theorem position_getter_returns_cell_object:
  "x_set (Float_num (5 / 2)) demo_VisShape =
     (Inr PyNone, demo_VisShape\<lparr>self_shape :=
        Some (demo_shape\<lparr>cells := (cells demo_shape)(''PinX'' \<mapsto> VFloat (5 / 2))\<rparr>)\<rparr>)
   \<and> x_get (snd (x_set (Float_num (5 / 2)) demo_VisShape)) = Inr (PyCOMCell ''PinX'')
   \<and> x_get (snd (x_set (Float_num (5 / 2)) demo_VisShape)) \<noteq> Inr (PyFloat (5 / 2))
   \<and> w_get (snd (w_set (Int_num 5) demo_VisShape)) = Inr (PyCOMCell ''Width'')"
  by (simp add: x_set_def x_get_def w_set_def w_get_def float_set_def float_of_int_five
      formula_set_def cell_get_def getattr_shape_def IVShape_members_def set_FormulaU_def
      CellsU_def demo_VisShape_def demo_shape_def)

text \<open>
  Claim C7. \<open>route_style(0)\<close> on a connector whose sheet has the cell
  \<open>ShapeRouteStyle\<close> raises \<open>AttributeError\<close> and leaves the cell as it was; the
  method \<open>setcell\<close> of the wrapper, called with the same arguments, writes the cell.
\<close>

theorem route_style_raises_attribute_error:
  "route_style 0 demo_connector = (Inl (AttributeError ''setcell''), demo_connector)
   \<and> get_FormulaU demo_connector_shape ''ShapeRouteStyle'' = Inr (VStr ''1'')
   \<and> fst (setcell ''ShapeRouteStyle'' ''0'' False demo_connector) = Inr PyNone
   \<and> formula_get ''CellsU'' ''ShapeRouteStyle''
        (snd (setcell ''ShapeRouteStyle'' ''0'' False demo_connector)) = Inr (PyFormula (VStr (quoted ''0'')))"
  by (simp add: route_style_def getattr_shape_def IVShape_members_def demo_connector_def
      get_FormulaU_def demo_connector_shape_def setcell_def formula_set_def set_FormulaU_def
      formula_get_def Port_A_def Port_B_def)

lemma route_style_always_fails:
  "route_style style self = (Inl (AttributeError ''setcell''), self)"
  by (simp add: route_style_def getattr_shape_def IVShape_members_def split: option.splits)

lemma length_py_split: "length (py_split c s) = Suc (count_list s c)"
  by (induction s) (auto split: list.splits)

lemma three_or_more:
  assumes "3 \<le> length xs"
  shows "\<exists>a b d rest. xs = a # b # d # rest"
proof (cases xs)
  case Nil
  with assms show ?thesis by simp
next
  case (Cons a ys)
  show ?thesis
  proof (cases ys)
    case Nil
    with Cons assms show ?thesis by simp
  next
    case (Cons b zs)
    note ys = this
    show ?thesis
    proof (cases zs)
      case Nil
      with ys \<open>xs = a # ys\<close> assms show ?thesis by simp
    next
      case (Cons d rest)
      with ys \<open>xs = a # ys\<close> show ?thesis by simp
    qed
  qed
qed

lemma too_many_parts:
  assumes "2 \<le> count_list t c"
  shows "\<exists>a b d rest. py_split c t = a # b # d # rest"
proof -
  have "3 \<le> length (py_split c t)" using assms by (simp add: length_py_split)
  then show ?thesis by (rule three_or_more)
qed

lemma no_separator_no_list_ex:
  "c \<notin> set t \<Longrightarrow> \<not> list_ex (\<lambda>ch. ch = c) t"
  by (simp add: list_ex_iff)

lemma separator_list_ex:
  "2 \<le> count_list t c \<Longrightarrow> list_ex (\<lambda>ch. ch = c) t"
  by (induction t) (auto split: if_splits)

text \<open>
  Claim C10. On a connector of type \<open>Data_Connect\<close>: a text \<open>t\<close> without \<open>;\<close> is
  written whole to the cell \<open>Prop.Port_A_Port_Name\<close> of the start label, as the formula
  \<open>="t"\<close>, and the empty string to the cell \<open>Prop.Port_B_Port_Name\<close> of the end label,
  as the formula \<open>=""\<close> (the connector is live and has both cells); a text with two or
  more \<open>;\<close> raises \<open>ValueError\<close> and the object, with both cells, is as before.
\<close>

theorem dual_label_text_setter:
  assumes "self_type self = Some ''Data_Connect''"
  shows "(CHR '';'' \<notin> set t \<and> self_shape self = Some sh
            \<and> cells sh ''Prop.Port_A_Port_Name'' \<noteq> None
            \<and> cells sh ''Prop.Port_B_Port_Name'' \<noteq> None \<longrightarrow>
          connector_text_set t self =
            (Inr PyNone,
             self\<lparr>self_shape := Some (sh\<lparr>cells := (cells sh)
               (''Prop.Port_A_Port_Name'' \<mapsto> VStr (CHR ''='' # CHR 0x22 # t @ [CHR 0x22]),
                ''Prop.Port_B_Port_Name'' \<mapsto> VStr [CHR ''='', CHR 0x22, CHR 0x22])\<rparr>)\<rparr>))
       \<and> (2 \<le> count_list t CHR '';'' \<longrightarrow>
          connector_text_set t self =
            (Inl (ValueError (StrArg ''too many values to unpack'')), self))"
proof (intro conjI impI)
  assume a: "CHR '';'' \<notin> set t \<and> self_shape self = Some sh
    \<and> cells sh ''Prop.Port_A_Port_Name'' \<noteq> None \<and> cells sh ''Prop.Port_B_Port_Name'' \<noteq> None"
  then have nosep: "\<not> list_ex (\<lambda>ch. ch = CHR '';'') t" by (simp add: list_ex_iff)
  have "connector_text_set t self = write_labels t [] self"
    using assms nosep by (simp add: connector_text_set_def)
  also have "\<dots> = (Inr PyNone,
             self\<lparr>self_shape := Some (sh\<lparr>cells := (cells sh)
               (''Prop.Port_A_Port_Name'' \<mapsto> VStr (CHR ''='' # CHR 0x22 # t @ [CHR 0x22]),
                ''Prop.Port_B_Port_Name'' \<mapsto> VStr [CHR ''='', CHR 0x22, CHR 0x22])\<rparr>)\<rparr>)"
    using a
    by (auto simp: write_labels_def formula_set_def getattr_shape_def IVShape_members_def
        set_FormulaU_def Port_A_def Port_B_def quoted_def)
  finally show "connector_text_set t self = (Inr PyNone,
             self\<lparr>self_shape := Some (sh\<lparr>cells := (cells sh)
               (''Prop.Port_A_Port_Name'' \<mapsto> VStr (CHR ''='' # CHR 0x22 # t @ [CHR 0x22]),
                ''Prop.Port_B_Port_Name'' \<mapsto> VStr [CHR ''='', CHR 0x22, CHR 0x22])\<rparr>)\<rparr>)" .
next
  assume b: "2 \<le> count_list t CHR '';''"
  from too_many_parts[OF b] obtain a b' d rest where sp: "py_split CHR '';'' t = a # b' # d # rest"
    by blast
  show "connector_text_set t self = (Inl (ValueError (StrArg ''too many values to unpack'')), self)"
    using assms separator_list_ex[OF b] sp by (simp add: connector_text_set_def)
qed

theorem dual_label_text_setter_witness:
  "connector_text_set ''abcd'' demo_connector =
     (Inr PyNone,
      demo_connector\<lparr>self_shape := Some (demo_connector_shape\<lparr>cells :=
         (cells demo_connector_shape)
           (''Prop.Port_A_Port_Name'' \<mapsto>
              VStr [CHR ''='', CHR 0x22, CHR ''a'', CHR ''b'', CHR ''c'', CHR ''d'', CHR 0x22],
            ''Prop.Port_B_Port_Name'' \<mapsto> VStr [CHR ''='', CHR 0x22, CHR 0x22])\<rparr>)\<rparr>)
   \<and> connector_text_set ''to Box1;to Box4;x'' demo_connector =
     (Inl (ValueError (StrArg ''too many values to unpack'')), demo_connector)"
proof -
  have ty: "self_type demo_connector = Some ''Data_Connect''"
    by (simp add: demo_connector_def demo_connector_type)
  have live: "self_shape demo_connector = Some demo_connector_shape"
    "cells demo_connector_shape ''Prop.Port_A_Port_Name'' \<noteq> None"
    "cells demo_connector_shape ''Prop.Port_B_Port_Name'' \<noteq> None"
    by (simp_all add: demo_connector_def demo_connector_shape_def)
  show ?thesis
    using dual_label_text_setter [OF ty, of "''abcd''" demo_connector_shape]
      dual_label_text_setter [OF ty, of "''to Box1;to Box4;x''" demo_connector_shape] live
    by simp
qed

lemma delete_returned:
  assumes "delete DeleteEx flags self = (Inr r, self')"
  shows "self' = self\<lparr>self_shape := None\<rparr>"
  using assms by (auto simp: delete_def split: sum.splits option.splits)

lemma getattr_shape_None:
  "self_shape self = None \<Longrightarrow> getattr_shape self attr = Inl (AttributeError attr)"
  by (simp add: getattr_shape_def)

lemma formula_set_None:
  "self_shape self = None \<Longrightarrow> formula_set attr name v self = (Inl (AttributeError attr), self)"
  by (simp add: formula_set_def getattr_shape_None)

lemma formula_get_None:
  "self_shape self = None \<Longrightarrow> formula_get attr name self = Inl (AttributeError attr)"
  by (simp add: formula_get_def getattr_shape_None)

lemma cell_get_None:
  "self_shape self = None \<Longrightarrow> cell_get attr name self = Inl (AttributeError attr)"
  by (simp add: cell_get_def getattr_shape_None)

lemma float_set_None:
  assumes "self_shape self = None"
  shows "\<exists>e. float_set name v self = (Inl e, self)"
  using assms by (simp add: float_set_def formula_set_None split: sum.splits)

lemma connector_text_set_None:
  assumes "self_shape self = None"
  shows "\<exists>e. connector_text_set t self = (Inl e, self)"
  using assms
  by (simp add: connector_text_set_def write_labels_def formula_set_None text_set_def
      getattr_shape_None split: list.splits)

lemma connector_text_get_None:
  assumes "self_shape self = None"
  shows "\<exists>e. connector_text_get R self = Inl e"
  using assms
  by (simp add: connector_text_get_def text_get_def getattr_shape_None)

lemma perform_None:
  assumes "self_shape self = None"
  shows "\<exists>e. perform D R op self = (Inl e, self)"
proof (cases op)
  case Op_text
  then show ?thesis
    using connector_text_get_None[OF assms, of R] assms
    by (auto simp: text_get_def getattr_shape_None)
next
  case (Op_set_text t)
  then show ?thesis
    using connector_text_set_None[OF assms, of t] assms
    by (auto simp: text_set_def getattr_shape_None)
qed (use assms in \<open>simp_all add: x_get_def x_set_def y_get_def y_set_def w_get_def w_set_def
      float_set_None h_get_def h_set_def coords_def moveto_def linecolor_get_def linecolor_set_def
      setlinecolor_def fillcolor_get_def fillcolor_set_def setfillcolor_def oneD_def cell_def
      setcell_def delete_def route_style_def cell_get_None formula_set_None formula_get_None
      getattr_shape_None\<close>)

text \<open>
  Claim C4. When \<open>delete\<close> has returned, \<open>self._shape\<close> is \<open>None\<close>, and every
  operation of the object then returns an error and leaves the object as it is, whatever
  the application would answer.
\<close>

theorem use_after_delete_fails:
  assumes "delete DeleteEx flags self = (Inr r, self')"
  shows "self_shape self' = None \<and> (\<forall>D R op. \<exists>e. perform D R op self' = (Inl e, self'))"
proof -
  have gone: "self_shape self' = None"
    using delete_returned[OF assms] by simp
  then show ?thesis using perform_None by blast
qed

theorem use_after_delete_fails_witness:
  "delete (\<lambda>sh f. None) visDeleteNormal demo_VisShape = (Inr PyNone, \<lparr>self_shape = None, self_type = None\<rparr>)
   \<and> perform (\<lambda>sh f. None) (\<lambda>v. []) Op_x \<lparr>self_shape = None, self_type = None\<rparr>
       = (Inl (AttributeError ''CellsU''), \<lparr>self_shape = None, self_type = None\<rparr>)
   \<and> (\<forall>D R op. \<exists>e. perform D R op \<lparr>self_shape = None, self_type = None\<rparr>
         = (Inl e, \<lparr>self_shape = None, self_type = None\<rparr>))"
proof -
  have del: "delete (\<lambda>sh f. None) visDeleteNormal demo_VisShape =
      (Inr PyNone, \<lparr>self_shape = None, self_type = None\<rparr>)"
    by (simp add: delete_def getattr_shape_def IVShape_members_def demo_VisShape_def)
  have x: "perform (\<lambda>sh f. None) (\<lambda>v. []) Op_x \<lparr>self_shape = None, self_type = None\<rparr>
       = (Inl (AttributeError ''CellsU''), \<lparr>self_shape = None, self_type = None\<rparr>)"
    by (simp add: x_get_def cell_get_def getattr_shape_def)
  show ?thesis
    using use_after_delete_fails [OF del] del x by simp
qed


end
